theory Spec2Isabelle
  imports Main "HOL-Library.Word" "HOL-Library.AList"
begin

section \<open>Common types\<close>

text \<open>
  A Go \<open>error\<close> is modelled by its message (\<open>err.Error()\<close>), the only thing the
  sink ever inspects; a nil error is \<open>None\<close> of \<open>error option\<close>, and a call that
  returns a value or an error is a sum with \<open>Inl\<close> for the error.
\<close>

type_synonym error = string

section \<open>Schema bootstrap (db/bootstrap.go)\<close>

text \<open>
  The connection \<open>PgxIface\<close> is an interface: its two methods used by the bootstrapper
  are fields of a record over an abstract database state \<open>'db\<close>.
  \<open>schemaExists\<close> is the catalog lookup
  \<open>SELECT EXISTS(SELECT 1 FROM pg_namespace WHERE nspname = $1)\<close> scanned into a
  bool; \<open>exec\<close> runs one script and yields the error (if any) and the database after
  it.
\<close>

record 'db PgxIface =
  schemaExists :: "'db \<Rightarrow> string \<Rightarrow> error + bool"
  exec :: "'db \<Rightarrow> string \<Rightarrow> error option \<times> 'db"

text \<open>
  The result of a bootstrap run: the returned error, the database afterwards and the
  scripts handed to \<open>conn.Exec\<close>, in the order of the calls.
\<close>

record 'db bootstrapped =
  returned :: "error option"
  database :: "'db"
  executed :: "string list"

text \<open>The loop \<open>for _, sql := range sqls\<close> of \<open>executeSchemaScripts\<close>.\<close>

fun runScripts :: "'db PgxIface \<Rightarrow> string list \<Rightarrow> 'db \<Rightarrow> string list \<Rightarrow> 'db bootstrapped" where
  "runScripts conn [] db sofar = \<lparr>returned = None, database = db, executed = sofar\<rparr>"
| "runScripts conn (sql # sqls) db sofar =
     (case exec conn db sql of
        (Some err, db') \<Rightarrow> \<lparr>returned = Some err, database = db', executed = sofar @ [sql]\<rparr>
      | (None, db') \<Rightarrow> runScripts conn sqls db' (sofar @ [sql]))"

definition executeSchemaScripts :: "'db PgxIface \<Rightarrow> 'db \<Rightarrow> string \<Rightarrow> string list \<Rightarrow> 'db bootstrapped" where
  "executeSchemaScripts conn db schema sqls =
     (case schemaExists conn db schema of
        Inl err \<Rightarrow> \<lparr>returned = Some err, database = db, executed = []\<rparr>
      | Inr exists \<Rightarrow>
          if exists then \<lparr>returned = None, database = db, executed = []\<rparr>
          else runScripts conn sqls db [])"

text \<open>
  The two entry points. The script texts (\<open>sqlConfigSchema\<close>, \<open>sqlMetricAdminSchema\<close>,
  ...) are embedded files that are not part of the sources at hand, so the lists
  \<open>configSchemaSQLs\<close> and \<open>metricSchemaSQLs\<close> are parameters.
\<close>

definition ExecuteConfigSchemaScripts :: "'db PgxIface \<Rightarrow> 'db \<Rightarrow> string list \<Rightarrow> 'db bootstrapped" where
  "ExecuteConfigSchemaScripts conn db configSchemaSQLs =
     executeSchemaScripts conn db ''pgwatch3'' configSchemaSQLs"

definition ExecuteMetricSchemaScripts :: "'db PgxIface \<Rightarrow> 'db \<Rightarrow> string list \<Rightarrow> 'db bootstrapped" where
  "ExecuteMetricSchemaScripts conn db metricSchemaSQLs =
     executeSchemaScripts conn db ''admin'' metricSchemaSQLs"


section \<open>The metric sink: data (sinks/postgres.go)\<close>

text \<open>
  A \<open>time.Time\<close> is modelled by its instant, in nanoseconds relative to the Unix epoch;
  \<open>Before\<close>, \<open>After\<close> and \<open>Equal\<close> compare instants. The zero \<open>time.Time\<close> is
  January 1 of year 1, 00:00:00 UTC, which lies 62135596800 seconds before the epoch.
  \<open>time.Unix(0, ns)\<close> of an \<open>int64\<close> is the instant \<open>ns\<close> read as a signed number.
\<close>

type_synonym time = int

definition zeroTime :: time where
  "zeroTime = - 62135596800000000000"

definition IsZero :: "time \<Rightarrow> bool" where
  "IsZero t = (t = zeroTime)"

definition Before :: "time \<Rightarrow> time \<Rightarrow> bool" where
  "Before t u = (t < u)"

definition After :: "time \<Rightarrow> time \<Rightarrow> bool" where
  "After t u = (u < t)"

definition Equal :: "time \<Rightarrow> time \<Rightarrow> bool" where
  "Equal t u = (t = u)"

definition Unix0 :: "64 word \<Rightarrow> time" where
  "Unix0 ns = sint ns"

text \<open>
  A value of the empty interface \<open>any\<close>, by its dynamic type: nil, a string, an
  \<open>int64\<close>, an integer of another type, a \<open>float64\<close> (its IEEE bits), a bool, or a
  value of any other type (by its printed form).
\<close>

datatype any = ANil | AString string | AInt64 "64 word" | AInt int | AFloat64 "64 word"
  | ABool bool | AOther string

datatype DbStorageSchemaType = DbStorageSchemaPostgres | DbStorageSchemaTimescale

record ExistingPartitionInfo =
  StartTime :: time
  EndTime :: time

text \<open>The zero value \<open>ExistingPartitionInfo{}\<close>.\<close>

definition zeroInfo :: ExistingPartitionInfo where
  "zeroInfo = \<lparr>StartTime = zeroTime, EndTime = zeroTime\<rparr>"

record MeasurementMessagePostgres =
  Time :: time
  DBName :: string
  Metric :: string
  Data :: "(string \<times> any) list"
  TagData :: "(string \<times> any) list"

text \<open>
  \<open>metrics.MeasurementMessage\<close> is declared outside the sources at hand; the sink reads
  four of its fields, \<open>DBName\<close>, \<open>MetricName\<close>, \<open>CustomTags\<close> (a map that may be nil) and
  \<open>Data\<close> (a slice of rows, each a \<open>map[string]any\<close>). They carry the prefix \<open>msg\<close>
  here, since \<open>DBName\<close> and \<open>Data\<close> are fields of \<open>MeasurementMessagePostgres\<close> too.
  A Go map that is only filled and ranged over is an association list; the rows of the
  input come in the order in which the \<open>range\<close> statement visits them.
\<close>

record MeasurementMessage =
  msgDBName :: string
  msgMetricName :: string
  msgCustomTags :: "(string \<times> any) list option"
  msgData :: "(string \<times> any) list list"

definition cacheLimit :: nat where
  "cacheLimit = 512"

definition epochColumnName :: string where
  "epochColumnName = ''epoch_ns''"

definition tagPrefix :: string where
  "tagPrefix = ''tag_''"

text \<open>\<open>strings.HasPrefix\<close>, \<open>strings.HasSuffix\<close> and \<open>strings.Contains\<close>.\<close>

definition HasPrefix :: "string \<Rightarrow> string \<Rightarrow> bool" where
  "HasPrefix s pre = (take (length pre) s = pre)"

definition HasSuffix :: "string \<Rightarrow> string \<Rightarrow> bool" where
  "HasSuffix s suf = (length suf \<le> length s \<and> drop (length s - length suf) s = suf)"

fun Contains :: "string \<Rightarrow> string \<Rightarrow> bool" where
  "Contains [] substr = (substr = [])"
| "Contains (c # s) substr = (HasPrefix (c # s) substr \<or> Contains s substr)"

text \<open>
  What the sink does to the outside world, in the order it does it: the calls of the
  store procedures, the bulk copies (target table, then the four columns \<open>time\<close>,
  \<open>dbname\<close>, \<open>data\<close>, \<open>tag_data\<close>) and the errors handed over on the \<open>lastError\<close>
  channel.
\<close>

datatype event =
    CallEnsurePartitionMetricDbnameTime string string time
  | CallEnsurePartitionMetricTime string time
  | CallEnsurePartitionTimescale string
  | CallCopyFrom string time string string "string option"
  | SentLastError error

text \<open>
  The process state the sink works on: the writer's fields (its context, its storage
  mode, the buffered \<open>input\<close> channel and the sender, if any, that waits on the unbuffered
  \<open>lastError\<close> channel), the package-level variables (the force flag, the two partition
  caches, the two \<open>uint64\<close> counters), and the history of events. The caches are only
  looked up and updated by key, so they are maps.
\<close>

record state =
  ctxDone :: bool
  MetricSchema :: DbStorageSchemaType
  input :: "MeasurementMessage list list"
  lastErrorSender :: "error option"
  forceRecreatePGMetricPartitions :: bool
  partitionMapMetric :: "string \<rightharpoonup> ExistingPartitionInfo"
  partitionMapMetricDbname :: "string \<rightharpoonup> (string \<rightharpoonup> ExistingPartitionInfo)"
  datastoreWriteFailuresCounter :: "64 word"
  totalMetricsDroppedCounter :: "64 word"
  trace :: "event list"

text \<open>
  Everything the sink asks of its surroundings: the clock (\<open>time.Now()\<close> at the n-th row
  of a flush), \<open>fmt.Sprintf("%v", _)\<close>, \<open>json.Marshal\<close>, the replies of the metric store
  (each may depend on all that happened before), whether a reader ever takes an error
  offered on \<open>lastError\<close>, and the order in which a \<open>range\<close> statement visits the keys of
  a map, which Go leaves open: the keys are visited by ascending \<open>rangeRank\<close>, given the
  place of the statement.
\<close>

record env =
  now :: "nat \<Rightarrow> time"
  sprintv :: "any \<Rightarrow> string"
  sprintBounds :: "ExistingPartitionInfo \<Rightarrow> string"
  jsonMarshal :: "(string \<times> any) list \<Rightarrow> error + string"
  rangeRank :: "string \<Rightarrow> string \<Rightarrow> nat"
  ensurePartitionMetricDbnameTime ::
    "event list \<Rightarrow> string \<Rightarrow> string \<Rightarrow> time \<Rightarrow> error + ExistingPartitionInfo"
  ensurePartitionMetricTime :: "event list \<Rightarrow> string \<Rightarrow> time \<Rightarrow> error + ExistingPartitionInfo"
  ensurePartitionMetricTimeEnd :: "event list \<Rightarrow> string \<Rightarrow> time \<Rightarrow> error + time"
  ensurePartitionTimescale :: "event list \<Rightarrow> string \<Rightarrow> error option"
  copyFrom :: "event list \<Rightarrow> string \<Rightarrow> time \<Rightarrow> string \<Rightarrow> string \<Rightarrow> string option \<Rightarrow> error option"
  lastErrorReceiver :: "event list \<Rightarrow> bool"

definition rangeOver :: "env \<Rightarrow> string \<Rightarrow> (string \<times> 'v) list \<Rightarrow> (string \<times> 'v) list" where
  "rangeOver e place m = sort_key (\<lambda>kv. rangeRank e place (fst kv)) m"

text \<open>A loop that returns at the first error, and one that stops at the first panic.\<close>

fun forEach :: "('a \<Rightarrow> 's \<Rightarrow> error option \<times> 's) \<Rightarrow> 'a list \<Rightarrow> 's \<Rightarrow> error option \<times> 's" where
  "forEach body [] s = (None, s)"
| "forEach body (x # xs) s =
     (case body x s of
        (Some err, s') \<Rightarrow> (Some err, s')
      | (None, s') \<Rightarrow> forEach body xs s')"

datatype panic = InterfaceConversion any

fun tryEach :: "('a \<Rightarrow> 's \<Rightarrow> panic + 's) \<Rightarrow> 'a list \<Rightarrow> 's \<Rightarrow> panic + 's" where
  "tryEach body [] s = Inr s"
| "tryEach body (x # xs) s =
     (case body x s of
        Inl p \<Rightarrow> Inl p
      | Inr s' \<Rightarrow> tryEach body xs s')"

section \<open>Schema-type probe and writer construction\<close>

text \<open>
  \<open>ReadMetricSchemaType\<close>: the reply is what
  \<open>QueryRow(...).Scan(&isTs)\<close> gives, an error (also when there is no row) or the bool.
\<close>

definition ReadMetricSchemaType :: "error + bool \<Rightarrow> state \<Rightarrow> error option \<times> state" where
  "ReadMetricSchemaType reply pgw =
     (let pgw1 = pgw\<lparr>MetricSchema := DbStorageSchemaPostgres\<rparr>
      in case reply of
           Inl err \<Rightarrow> (Some err, pgw1)
         | Inr isTs \<Rightarrow>
             (None, if isTs then pgw1\<lparr>MetricSchema := DbStorageSchemaTimescale\<rparr> else pgw1))"

text \<open>\<open>errors.Join\<close> of two errors: nil when both are, else the messages on separate lines.\<close>

definition errorsJoin :: "error option \<Rightarrow> error option \<Rightarrow> error option" where
  "errorsJoin a b =
     (case a of
        None \<Rightarrow> b
      | Some first \<Rightarrow>
          (case b of
             None \<Rightarrow> Some first
           | Some second \<Rightarrow> Some (first @ [CHR 0x0A] @ second)))"

definition builtinMetricDummies :: "string list" where
  "builtinMetricDummies = [''sproc_changes'', ''table_changes'', ''index_changes'',
     ''privilege_changes'', ''object_changes'', ''configuration_changes'']"

definition EnsureBuiltinMetricDummies :: "(string \<Rightarrow> error option) \<Rightarrow> error option" where
  "EnsureBuiltinMetricDummies ensureDummy =
     fold (\<lambda>name err. errorsJoin err (ensureDummy name)) builtinMetricDummies None"

text \<open>
  The metric store as \<open>NewPostgresWriter\<close> meets it: the outcome of
  \<open>InitAndTestMetricStoreConnection\<close>, the reply to the schema-type query and the replies
  of \<open>admin.ensure_dummy_metrics_table\<close>.
\<close>

record store =
  connectError :: "error option"
  schemaTypeRow :: "error + bool"
  ensureDummy :: "string \<Rightarrow> error option"

text \<open>
  What \<open>NewPostgresWriter\<close> leaves behind: the error it returns, the writer, whether the
  pool was closed again and whether the three background tasks were started.
\<close>

record constructed =
  newError :: "error option"
  writer :: state
  poolClosed :: bool
  tasksStarted :: bool

text \<open>The writer literal of \<open>NewPostgresWriter\<close> and the package variables at start.\<close>

definition newWriter :: state where
  "newWriter = \<lparr>ctxDone = False, MetricSchema = DbStorageSchemaPostgres, input = [],
     lastErrorSender = None, forceRecreatePGMetricPartitions = False,
     partitionMapMetric = Map.empty, partitionMapMetricDbname = Map.empty,
     datastoreWriteFailuresCounter = 0, totalMetricsDroppedCounter = 0, trace = []\<rparr>"

definition NewPostgresWriter :: "store \<Rightarrow> constructed" where
  "NewPostgresWriter st =
     (let pgw = newWriter
      in case connectError st of
           Some err \<Rightarrow> \<lparr>newError = Some err, writer = pgw, poolClosed = False, tasksStarted = False\<rparr>
         | None \<Rightarrow>
             (case ReadMetricSchemaType (schemaTypeRow st) pgw of
                (Some err, pgw1) \<Rightarrow>
                  \<lparr>newError = Some err, writer = pgw1, poolClosed = True, tasksStarted = False\<rparr>
              | (None, pgw1) \<Rightarrow>
                  (case EnsureBuiltinMetricDummies (ensureDummy st) of
                     Some err \<Rightarrow>
                       \<lparr>newError = Some err, writer = pgw1, poolClosed = False, tasksStarted = False\<rparr>
                   | None \<Rightarrow>
                       \<lparr>newError = None, writer = pgw1, poolClosed = False, tasksStarted = True\<rparr>)))"

text \<open>A store that is reachable and bootstrapped but whose settings table has no row.\<close>

definition noRowStore :: store where
  "noRowStore = \<lparr>connectError = None, schemaTypeRow = Inl ''no rows in result set'',
     ensureDummy = (\<lambda>name. None)\<rparr>"

section \<open>The write entry point\<close>

text \<open>
  \<open>Write\<close>. The first \<open>select\<close> puts the batch on the \<open>input\<close> channel when it has room;
  when it is full, \<open>drained\<close> says whether the batcher takes a batch off it within
  \<open>highLoadTimeout\<close>, else the batch is dropped. The second \<open>select\<close> takes the error of
  a sender that waits on \<open>lastError\<close>, if there is one, and does not wait otherwise.
\<close>

definition Write :: "bool \<Rightarrow> state \<Rightarrow> MeasurementMessage list \<Rightarrow> error option \<times> state" where
  "Write drained pgw msgs =
     (if ctxDone pgw then (None, pgw)
      else
        let pgw1 =
              (if length (input pgw) < cacheLimit then pgw\<lparr>input := input pgw @ [msgs]\<rparr>
               else if drained then pgw\<lparr>input := tl (input pgw) @ [msgs]\<rparr>
               else pgw)
        in case lastErrorSender pgw1 of
             Some err \<Rightarrow> (Some err, pgw1\<lparr>lastErrorSender := None\<rparr>)
           | None \<Rightarrow> (None, pgw1))"

section \<open>The batcher's write pass: collecting the rows\<close>

text \<open>
  The locals of one row: \<open>epochNs\<close>, \<open>tags\<close> and \<open>fields\<close> (here \<open>dataFields\<close>). \<open>tags\<close>
  and \<open>fields\<close> are Go maps filled key by key: association lists updated in place.
\<close>

record rowParts =
  epochNs :: "64 word"
  tags :: "(string \<times> any) list"
  dataFields :: "(string \<times> any) list"

text \<open>
  The body of \<open>for k, v := range dataRow\<close>. The type assertion \<open>v.(int64)\<close> has no
  \<open>ok\<close> result, so it panics on a value of any other dynamic type. \<open>v == ""\<close> holds
  for the empty string only.
\<close>

definition scanField :: "env \<Rightarrow> string \<times> any \<Rightarrow> rowParts \<Rightarrow> panic + rowParts" where
  "scanField e kv r =
     (let k = fst kv; v = snd kv
      in if v = ANil \<or> v = AString [] then Inr r
         else if k = epochColumnName then
           (case v of
              AInt64 n \<Rightarrow> Inr (r\<lparr>epochNs := n\<rparr>)
            | _ \<Rightarrow> Inl (InterfaceConversion v))
         else if HasPrefix k tagPrefix then
           Inr (r\<lparr>tags := AList.update (drop 4 k) (AString (sprintv e v)) (tags r)\<rparr>)
         else Inr (r\<lparr>dataFields := AList.update k v (dataFields r)\<rparr>))"

text \<open>The tags a row starts with: the custom tags of its message, printed.\<close>

definition customTags :: "env \<Rightarrow> MeasurementMessage \<Rightarrow> (string \<times> any) list" where
  "customTags e msg =
     (case msgCustomTags msg of
        None \<Rightarrow> []
      | Some ct \<Rightarrow> fold (\<lambda>kv t. AList.update (fst kv) (AString (sprintv e (snd kv))) t) ct [])"

text \<open>The locals of \<open>write\<close> that the first loop fills.\<close>

record batch =
  metricsToStorePerMetric :: "(string \<times> MeasurementMessagePostgres list) list"
  rowsBatched :: nat
  totalRows :: nat
  pgPartBounds :: "(string \<times> ExistingPartitionInfo) list"
  pgPartBoundsDbName :: "(string \<times> (string \<times> ExistingPartitionInfo) list) list"

definition emptyBatch :: batch where
  "emptyBatch = \<lparr>metricsToStorePerMetric = [], rowsBatched = 0, totalRows = 0,
     pgPartBounds = [], pgPartBoundsDbName = []\<rparr>"

text \<open>
  Setting the min/max timestamps of one key: \<open>bounds, ok := m[key]\<close>, then the two
  tests, each of which stores the changed bounds back.
\<close>

definition touchBounds ::
  "(string \<times> ExistingPartitionInfo) list \<Rightarrow> string \<Rightarrow> time \<Rightarrow> (string \<times> ExistingPartitionInfo) list" where
  "touchBounds m key epochTime =
     (let found = map_of m key;
          bounds = (case found of None \<Rightarrow> zeroInfo | Some b \<Rightarrow> b);
          lower = (found = None \<or> found \<noteq> None \<and> Before epochTime (StartTime bounds));
          bounds1 = (if lower then bounds\<lparr>StartTime := epochTime\<rparr> else bounds);
          m1 = (if lower then AList.update key bounds1 m else m);
          upper = (found = None \<or> found \<noteq> None \<and> After epochTime (EndTime bounds1));
          bounds2 = (if upper then bounds1\<lparr>EndTime := epochTime\<rparr> else bounds1)
      in if upper then AList.update key bounds2 m1 else m1)"

text \<open>
  The body of \<open>for _, dataRow := range msg.Data\<close>. \<open>time.Now()\<close> is the clock at the
  number of rows seen before this one.
\<close>

definition storeRow ::
  "env \<Rightarrow> DbStorageSchemaType \<Rightarrow> MeasurementMessage \<Rightarrow> (string \<times> any) list \<Rightarrow> batch \<Rightarrow> panic + batch" where
  "storeRow e schema msg dataRow b =
     (case tryEach (scanField e) dataRow \<lparr>epochNs = 0, tags = customTags e msg, dataFields = []\<rparr> of
        Inl p \<Rightarrow> Inl p
      | Inr r \<Rightarrow>
          let epochTime = (if epochNs r = 0 then now e (totalRows b) else Unix0 (epochNs r));
              metricsArr = (case map_of (metricsToStorePerMetric b) (msgMetricName msg) of
                              None \<Rightarrow> [] | Some arr \<Rightarrow> arr);
              b1 = b\<lparr>totalRows := totalRows b + 1,
                     metricsToStorePerMetric :=
                       AList.update (msgMetricName msg)
                         (metricsArr @ [\<lparr>Time = epochTime, DBName = msgDBName msg,
                            Metric = msgMetricName msg, Data = dataFields r, TagData = tags r\<rparr>])
                         (metricsToStorePerMetric b),
                     rowsBatched := rowsBatched b + 1\<rparr>
          in Inr (case schema of
                    DbStorageSchemaTimescale \<Rightarrow>
                      b1\<lparr>pgPartBounds := touchBounds (pgPartBounds b1) (msgMetricName msg) epochTime\<rparr>
                  | DbStorageSchemaPostgres \<Rightarrow>
                      b1\<lparr>pgPartBoundsDbName :=
                           AList.update (msgMetricName msg)
                             (touchBounds
                                (case map_of (pgPartBoundsDbName b1) (msgMetricName msg) of
                                   None \<Rightarrow> [] | Some byDb \<Rightarrow> byDb)
                                (msgDBName msg) epochTime)
                             (pgPartBoundsDbName b1)\<rparr>))"

text \<open>The first loop of \<open>write\<close>: a message without rows is skipped.\<close>

definition storeMessage :: "env \<Rightarrow> DbStorageSchemaType \<Rightarrow> MeasurementMessage \<Rightarrow> batch \<Rightarrow> panic + batch" where
  "storeMessage e schema msg b =
     (if length (msgData msg) = 0 then Inr b
      else tryEach (storeRow e schema msg) (msgData msg) b)"

definition collect :: "env \<Rightarrow> DbStorageSchemaType \<Rightarrow> MeasurementMessage list \<Rightarrow> panic + batch" where
  "collect e schema msgs = tryEach (storeMessage e schema) msgs emptyBatch"

text \<open>
  The entries collected for a metric so far, and what marks the entry of a row of \<open>msg\<close>
  from which no payload field was kept.
\<close>

definition stored :: "batch \<Rightarrow> string \<Rightarrow> MeasurementMessagePostgres list" where
  "stored b metric =
     (case map_of (metricsToStorePerMetric b) metric of None \<Rightarrow> [] | Some arr \<Rightarrow> arr)"

definition emptyStored :: "env \<Rightarrow> MeasurementMessage \<Rightarrow> MeasurementMessagePostgres \<Rightarrow> bool" where
  "emptyStored e msg m =
     (DBName m = msgDBName msg \<and> Metric m = msgMetricName msg \<and> Data m = [] \<and>
      TagData m = customTags e msg)"







section \<open>The partition manager\<close>

definition zeroBoundsError :: "env \<Rightarrow> string \<Rightarrow> ExistingPartitionInfo \<Rightarrow> error" where
  "zeroBoundsError e metric pb =
     ''zero StartTime/EndTime in partitioning request: ['' @ metric @ '':'' @ sprintBounds e pb @ '']''"

definition cachedDbname :: "state \<Rightarrow> string \<Rightarrow> string \<Rightarrow> ExistingPartitionInfo option" where
  "cachedDbname s metric dbname =
     (case partitionMapMetricDbname s metric of None \<Rightarrow> None | Some byDb \<Rightarrow> byDb dbname)"

text \<open>\<open>partitionMapMetricDbname[metric][dbname] = partInfo\<close>.\<close>

definition setCachedDbname :: "string \<Rightarrow> string \<Rightarrow> ExistingPartitionInfo \<Rightarrow> state \<Rightarrow> state" where
  "setCachedDbname metric dbname partInfo s =
     s\<lparr>partitionMapMetricDbname :=
         (partitionMapMetricDbname s)
           (metric \<mapsto> (case partitionMapMetricDbname s metric of
                          None \<Rightarrow> Map.empty | Some byDb \<Rightarrow> byDb)(dbname \<mapsto> partInfo))\<rparr>"

text \<open>
  One call of \<open>admin.ensure_partition_metric_dbname_time($1, $2, $3)\<close> with its row
  collected: the call is recorded whether or not it succeeds.
\<close>

definition queryDbnameTime ::
  "env \<Rightarrow> string \<Rightarrow> string \<Rightarrow> time \<Rightarrow> state \<Rightarrow> (error + ExistingPartitionInfo) \<times> state" where
  "queryDbnameTime e metric dbname ts s =
     (ensurePartitionMetricDbnameTime e (trace s) metric dbname ts,
      s\<lparr>trace := trace s @ [CallEnsurePartitionMetricDbnameTime metric dbname ts]\<rparr>)"

text \<open>
  The first test of the inner loop of \<open>EnsureMetricDbnameTime\<close> and its call; it yields
  the error, or \<open>partInfo\<close> as the second test will read it.
\<close>

definition ensureDbnameStart ::
  "env \<Rightarrow> bool \<Rightarrow> string \<Rightarrow> string \<Rightarrow> ExistingPartitionInfo \<Rightarrow> state
     \<Rightarrow> (error + ExistingPartitionInfo) \<times> state" where
  "ensureDbnameStart e force metric dbname pb s =
     (let found = cachedDbname s metric dbname;
          partInfo = (case found of None \<Rightarrow> zeroInfo | Some p \<Rightarrow> p)
      in if found = None \<or> found \<noteq> None \<and> Before (StartTime pb) (StartTime partInfo) \<or> force
         then (case queryDbnameTime e metric dbname (StartTime pb) s of
                 (Inl err, s1) \<Rightarrow> (Inl err, s1)
               | (Inr info, s1) \<Rightarrow> (Inr info, setCachedDbname metric dbname info s1))
         else (Inr partInfo, s))"

text \<open>The second test and its call, which again passes \<open>pb.StartTime\<close>.\<close>

definition ensureDbnameEnd ::
  "env \<Rightarrow> bool \<Rightarrow> string \<Rightarrow> string \<Rightarrow> ExistingPartitionInfo \<Rightarrow> ExistingPartitionInfo \<Rightarrow> state
     \<Rightarrow> error option \<times> state" where
  "ensureDbnameEnd e force metric dbname pb partInfo s =
     (if After (EndTime pb) (EndTime partInfo) \<or> Equal (EndTime pb) (EndTime partInfo) \<or> force
      then (case queryDbnameTime e metric dbname (StartTime pb) s of
              (Inl err, s1) \<Rightarrow> (Some err, s1)
            | (Inr info, s1) \<Rightarrow> (None, setCachedDbname metric dbname info s1))
      else (None, s))"

text \<open>The body of \<open>for dbname, pb := range dbnameTimestampMap\<close>.\<close>

definition ensureDbname ::
  "env \<Rightarrow> bool \<Rightarrow> string \<Rightarrow> string \<times> ExistingPartitionInfo \<Rightarrow> state \<Rightarrow> error option \<times> state" where
  "ensureDbname e force metric entry s =
     (let dbname = fst entry; pb = snd entry
      in if IsZero (StartTime pb) \<or> IsZero (EndTime pb)
         then (Some (zeroBoundsError e metric pb), s)
         else (case ensureDbnameStart e force metric dbname pb s of
                 (Inl err, s1) \<Rightarrow> (Some err, s1)
               | (Inr partInfo, s1) \<Rightarrow> ensureDbnameEnd e force metric dbname pb partInfo s1))"

text \<open>The body of \<open>for metric, dbnameTimestampMap := range metricDbnamePartBounds\<close>.\<close>

definition ensureMetricDbnames ::
  "env \<Rightarrow> bool \<Rightarrow> string \<times> (string \<times> ExistingPartitionInfo) list \<Rightarrow> state \<Rightarrow> error option \<times> state" where
  "ensureMetricDbnames e force entry s =
     (let metric = fst entry;
          s1 = (if partitionMapMetricDbname s metric = None
                then s\<lparr>partitionMapMetricDbname := (partitionMapMetricDbname s)(metric \<mapsto> Map.empty)\<rparr>
                else s)
      in forEach (ensureDbname e force metric) (rangeOver e (''dbnameTimestampMap:'' @ metric) (snd entry)) s1)"

definition EnsureMetricDbnameTime ::
  "env \<Rightarrow> (string \<times> (string \<times> ExistingPartitionInfo) list) list \<Rightarrow> bool \<Rightarrow> state \<Rightarrow> error option \<times> state" where
  "EnsureMetricDbnameTime e metricDbnamePartBounds force s =
     forEach (ensureMetricDbnames e force) (rangeOver e ''metricDbnamePartBounds'' metricDbnamePartBounds) s"

text \<open>
  The first loop of \<open>EnsureMetricTimescale\<close>: a hypertable for every metric that is not
  a realtime metric and not in the cache yet.
\<close>

definition ensureTimescaleTable ::
  "env \<Rightarrow> string \<times> ExistingPartitionInfo \<Rightarrow> state \<Rightarrow> error option \<times> state" where
  "ensureTimescaleTable e entry s =
     (let metric = fst entry
      in if HasSuffix metric ''_realtime'' then (None, s)
         else if partitionMapMetric s metric = None then
           (let s1 = s\<lparr>trace := trace s @ [CallEnsurePartitionTimescale metric]\<rparr>
            in case ensurePartitionTimescale e (trace s) metric of
                 Some err \<Rightarrow> (Some err, s1)
               | None \<Rightarrow> (None, s1\<lparr>partitionMapMetric := (partitionMapMetric s1)(metric \<mapsto> zeroInfo)\<rparr>))
         else (None, s))"

text \<open>
  The body of the loop of \<open>EnsureMetricTime\<close>. Its second call scans the reply into
  \<open>partInfo.EndTime\<close> alone.
\<close>

definition ensureRealtime ::
  "env \<Rightarrow> bool \<Rightarrow> string \<times> ExistingPartitionInfo \<Rightarrow> state \<Rightarrow> error option \<times> state" where
  "ensureRealtime e force entry s =
     (let metric = fst entry; pb = snd entry
      in if HasSuffix metric ''_realtime'' = False then (None, s)
         else if IsZero (StartTime pb) \<or> IsZero (EndTime pb)
         then (Some (zeroBoundsError e metric pb), s)
         else
           let found = partitionMapMetric s metric;
               partInfo = (case found of None \<Rightarrow> zeroInfo | Some p \<Rightarrow> p);
               first =
                 (if found = None \<or> found \<noteq> None \<and> Before (StartTime pb) (StartTime partInfo) \<or> force
                  then (let s1 = s\<lparr>trace := trace s @ [CallEnsurePartitionMetricTime metric (StartTime pb)]\<rparr>
                        in case ensurePartitionMetricTime e (trace s) metric (StartTime pb) of
                             Inl err \<Rightarrow> (Inl err, s1)
                           | Inr info \<Rightarrow>
                               (Inr info, s1\<lparr>partitionMapMetric := (partitionMapMetric s1)(metric \<mapsto> info)\<rparr>))
                  else (Inr partInfo, s))
           in case first of
                (Inl err, s1) \<Rightarrow> (Some err, s1)
              | (Inr partInfo1, s1) \<Rightarrow>
                  if After (EndTime pb) (EndTime partInfo1) \<or> force
                  then (let s2 = s1\<lparr>trace := trace s1 @ [CallEnsurePartitionMetricTime metric (EndTime pb)]\<rparr>
                        in case ensurePartitionMetricTimeEnd e (trace s1) metric (EndTime pb) of
                             Inl err \<Rightarrow> (Some err, s2)
                           | Inr endTime \<Rightarrow>
                               (None, s2\<lparr>partitionMapMetric :=
                                  (partitionMapMetric s2)(metric \<mapsto> partInfo1\<lparr>EndTime := endTime\<rparr>)\<rparr>))
                  else (None, s1))"

definition EnsureMetricTime ::
  "env \<Rightarrow> (string \<times> ExistingPartitionInfo) list \<Rightarrow> bool \<Rightarrow> state \<Rightarrow> error option \<times> state" where
  "EnsureMetricTime e bounds force s =
     forEach (ensureRealtime e force) (rangeOver e ''EnsureMetricTime'' bounds) s"

definition EnsureMetricTimescale ::
  "env \<Rightarrow> (string \<times> ExistingPartitionInfo) list \<Rightarrow> bool \<Rightarrow> state \<Rightarrow> error option \<times> state" where
  "EnsureMetricTimescale e bounds force s =
     (case forEach (ensureTimescaleTable e) (rangeOver e ''EnsureMetricTimescale'' bounds) s of
        (Some err, s1) \<Rightarrow> (Some err, s1)
      | (None, s1) \<Rightarrow> EnsureMetricTime e bounds force s1)"


definition addsNone :: "(event \<Rightarrow> bool) \<Rightarrow> state \<Rightarrow> state \<Rightarrow> bool" where
  "addsNone Q s s' = (\<exists>new. trace s' = trace s @ new \<and> filter Q new = [])"

section \<open>The copy engine\<close>

text \<open>The closure \<open>getTagData\<close>.\<close>

definition getTagData :: "env \<Rightarrow> MeasurementMessagePostgres \<Rightarrow> state \<Rightarrow> string option \<times> state" where
  "getTagData e m s =
     (if length (TagData m) > 0 then
        (case jsonMarshal e (TagData m) of
           Inl err \<Rightarrow>
             (None, s\<lparr>datastoreWriteFailuresCounter := datastoreWriteFailuresCounter s + 1\<rparr>)
         | Inr jsonBytesTags \<Rightarrow> (Some jsonBytesTags, s))
      else (None, s))"

text \<open>
  The body of \<open>for _, m := range metrics\<close>: one \<open>CopyFrom\<close> of one row. On an error of
  the copy the force flag is assigned whether the message contains \<open>no partition\<close>.
\<close>

definition copyRow :: "env \<Rightarrow> string \<Rightarrow> MeasurementMessagePostgres \<Rightarrow> state \<Rightarrow> state" where
  "copyRow e metricName m s =
     (case jsonMarshal e (Data m) of
        Inl err \<Rightarrow> s\<lparr>totalMetricsDroppedCounter := totalMetricsDroppedCounter s + 1\<rparr>
      | Inr jsonBytes \<Rightarrow>
          (case getTagData e m s of
             (tagData, s1) \<Rightarrow>
               let s2 = s1\<lparr>trace := trace s1 @
                          [CallCopyFrom metricName (Time m) (DBName m) jsonBytes tagData]\<rparr>
               in case copyFrom e (trace s1) metricName (Time m) (DBName m) jsonBytes tagData of
                    None \<Rightarrow> s2
                  | Some err \<Rightarrow>
                      s2\<lparr>datastoreWriteFailuresCounter := datastoreWriteFailuresCounter s2 + 1,
                         forceRecreatePGMetricPartitions := Contains err ''no partition''\<rparr>))"

definition copyMetric :: "env \<Rightarrow> string \<times> MeasurementMessagePostgres list \<Rightarrow> state \<Rightarrow> state" where
  "copyMetric e entry s = fold (copyRow e (fst entry)) (snd entry) s"

definition copyAll :: "env \<Rightarrow> (string \<times> MeasurementMessagePostgres list) list \<Rightarrow> state \<Rightarrow> state" where
  "copyAll e toStore s = fold (copyMetric e) (rangeOver e ''metricsToStorePerMetric'' toStore) s"

text \<open>The number of copy calls issued so far.\<close>

fun isCopy :: "event \<Rightarrow> bool" where
  "isCopy (CallCopyFrom table t dbname jsonData tagData) = True"
| "isCopy ev = False"


section \<open>The flush\<close>

text \<open>
  How a write pass ends: it returns, it panics (which ends the process), or it stays
  suspended in a send on \<open>lastError\<close> that no reader ever takes.
\<close>

datatype outcome = Returned state | Panicked panic state | Blocked error state

text \<open>
  \<open>pgw.lastError <- err\<close> on the unbuffered channel made by \<open>make(chan error)\<close>: a plain
  send statement, which waits for a receiver. When one comes the error is handed over;
  when none ever does, the batcher stays in the send.
\<close>

definition sendLastError :: "env \<Rightarrow> error \<Rightarrow> state \<Rightarrow> state + state" where
  "sendLastError e err s =
     (if lastErrorReceiver e (trace s) then Inr (s\<lparr>trace := trace s @ [SentLastError err]\<rparr>)
      else Inl (s\<lparr>lastErrorSender := Some err\<rparr>))"

text \<open>
  The partition-ensure step of \<open>write\<close>. \<open>MetricSchema\<close> only ever holds one of the two
  constants, so the \<open>logger.Fatal\<close> branch has no counterpart.
\<close>

definition ensurePartitions :: "env \<Rightarrow> batch \<Rightarrow> state \<Rightarrow> error option \<times> state" where
  "ensurePartitions e b pgw =
     (case MetricSchema pgw of
        DbStorageSchemaPostgres \<Rightarrow>
          EnsureMetricDbnameTime e (pgPartBoundsDbName b) (forceRecreatePGMetricPartitions pgw) pgw
      | DbStorageSchemaTimescale \<Rightarrow>
          EnsureMetricTimescale e (pgPartBounds b) (forceRecreatePGMetricPartitions pgw) pgw)"

text \<open>The rest of \<open>write\<close> once the rows are collected.\<close>

definition flush :: "env \<Rightarrow> batch \<Rightarrow> state \<Rightarrow> outcome" where
  "flush e b pgw =
     (case ensurePartitions e b pgw of
        (err, s1) \<Rightarrow>
          let s2 = (if forceRecreatePGMetricPartitions s1
                    then s1\<lparr>forceRecreatePGMetricPartitions := False\<rparr> else s1)
          in case err of
               None \<Rightarrow> Returned (copyAll e (metricsToStorePerMetric b) s2)
             | Some er \<Rightarrow>
                 (case sendLastError e er
                         (s2\<lparr>datastoreWriteFailuresCounter := datastoreWriteFailuresCounter s2 + 1\<rparr>) of
                    Inl waiting \<Rightarrow> Blocked er waiting
                  | Inr s3 \<Rightarrow>
                      (case sendLastError e er (copyAll e (metricsToStorePerMetric b) s3) of
                         Inl waiting \<Rightarrow> Blocked er waiting
                       | Inr s4 \<Rightarrow> Returned s4)))"

text \<open>
  The method \<open>write\<close> of the batcher (\<open>write\<close> is a command of Isabelle, hence the
  suffix). Its logging changes nothing the sink reads again and is left out.
\<close>

definition write_pass :: "env \<Rightarrow> state \<Rightarrow> MeasurementMessage list \<Rightarrow> outcome" where
  "write_pass e pgw msgs =
     (if length msgs = 0 then Returned pgw
      else (case collect e (MetricSchema pgw) msgs of
              Inl p \<Rightarrow> Panicked p pgw
            | Inr b \<Rightarrow> flush e b pgw))"

text \<open>Reading an outcome.\<close>

fun finalState :: "outcome \<Rightarrow> state" where
  "finalState (Returned s) = s"
| "finalState (Panicked p s) = s"
| "finalState (Blocked err s) = s"

fun hasReturned :: "outcome \<Rightarrow> bool" where
  "hasReturned (Returned s) = True"
| "hasReturned (Panicked p s) = False"
| "hasReturned (Blocked err s) = False"

fun blockedOn :: "outcome \<Rightarrow> error option" where
  "blockedOn (Blocked err s) = Some err"
| "blockedOn (Returned s) = None"
| "blockedOn (Panicked p s) = None"

section \<open>Concrete surroundings for evaluation\<close>

text \<open>
  A store in which every call succeeds and partitions are a thousand nanoseconds wide,
  a clock that starts at 1700000000000000000 ns, a printer that shows strings as they
  are, a marshaller that knows the empty object and refuses, as \<open>json.Marshal\<close> does,
  a map that holds the \<open>float64\<close> NaN (bits \<open>0x7FF8000000000000\<close>), and no reader on
  \<open>lastError\<close>.
\<close>

definition calmEnv :: env where
  "calmEnv = \<lparr>now = (\<lambda>n. 1700000000000000000 + int n),
     sprintv = (\<lambda>v. case v of AString s \<Rightarrow> s | _ \<Rightarrow> ''?''),
     sprintBounds = (\<lambda>pb. ''{}''),
     jsonMarshal = (\<lambda>m. if m = [] then Inr ''{}''
                         else if list_ex (\<lambda>v. v = AFloat64 0x7FF8000000000000) (map snd m)
                         then Inl ''json: unsupported value: NaN''
                         else Inr ''{...}''),
     rangeRank = (\<lambda>place key. 0),
     ensurePartitionMetricDbnameTime =
       (\<lambda>h metric dbname ts. Inr \<lparr>StartTime = ts - ts mod 1000, EndTime = ts - ts mod 1000 + 1000\<rparr>),
     ensurePartitionMetricTime =
       (\<lambda>h metric ts. Inr \<lparr>StartTime = ts - ts mod 1000, EndTime = ts - ts mod 1000 + 1000\<rparr>),
     ensurePartitionMetricTimeEnd = (\<lambda>h metric ts. Inr (ts - ts mod 1000 + 1000)),
     ensurePartitionTimescale = (\<lambda>h metric. None),
     copyFrom = (\<lambda>h table t dbname jsonData tagData. None),
     lastErrorReceiver = (\<lambda>h. False)\<rparr>"

text \<open>A message of one row for tenant \<open>t1\<close> and metric \<open>db_stats\<close>.\<close>

definition oneRow :: "(string \<times> any) list \<Rightarrow> MeasurementMessage" where
  "oneRow dataRow = \<lparr>msgDBName = ''t1'', msgMetricName = ''db_stats'', msgCustomTags = None,
     msgData = [dataRow]\<rparr>"

text \<open>
  The same surroundings with a store that refuses the partition procedure of the plain
  mode, and those again with a reader that takes every error offered on \<open>lastError\<close>.
\<close>

definition refusingEnv :: env where
  "refusingEnv = calmEnv\<lparr>ensurePartitionMetricDbnameTime :=
     (\<lambda>h metric dbname ts. Inl ''connection refused'')\<rparr>"

definition heardEnv :: env where
  "heardEnv = refusingEnv\<lparr>lastErrorReceiver := (\<lambda>h. True)\<rparr>"

text \<open>The batch collected from one row \<open>numbackends = 10\<close> without a timestamp.\<close>

definition tenBackends :: batch where
  "tenBackends =
     \<lparr>metricsToStorePerMetric = [(''db_stats'', [\<lparr>Time = 1700000000000000000,
        DBName = ''t1'', Metric = ''db_stats'', Data = [(''numbackends'', AInt64 10)],
        TagData = []\<rparr>])],
      rowsBatched = 1, totalRows = 1, pgPartBounds = [],
      pgPartBoundsDbName = [(''db_stats'', [(''t1'',
        \<lparr>StartTime = 1700000000000000000, EndTime = 1700000000000000000\<rparr>)])]\<rparr>"

text \<open>
  Surroundings in which the first copy of a flush fails for want of a partition and every
  later copy fails for another reason, and a batch of two rows of the metric \<open>wal\<close>.
\<close>

definition lostPartitionEnv :: env where
  "lostPartitionEnv = calmEnv\<lparr>copyFrom :=
     (\<lambda>h table t dbname jsonData tagData.
        if filter isCopy h = [] then Some ''ERROR: no partition of relation wal found for row''
        else Some ''unexpected EOF'')\<rparr>"

definition walRows :: "MeasurementMessage list" where
  "walRows = [\<lparr>msgDBName = ''t1'', msgMetricName = ''wal'', msgCustomTags = None,
     msgData = [[(''epoch_ns'', AInt64 1700000000000000100), (''xlog_location_b'', AInt64 1)],
                [(''epoch_ns'', AInt64 1700000000000000200), (''xlog_location_b'', AInt64 2)]]\<rparr>]"






lemmas collect_defs = collect_def storeMessage_def storeRow_def scanField_def customTags_def
  touchBounds_def emptyBatch_def epochColumnName_def tagPrefix_def HasPrefix_def Unix0_def
  zeroInfo_def Before_def After_def Equal_def

lemmas ensure_defs = ensurePartitions_def EnsureMetricDbnameTime_def ensureMetricDbnames_def
  ensureDbname_def ensureDbnameStart_def ensureDbnameEnd_def queryDbnameTime_def
  setCachedDbname_def cachedDbname_def EnsureMetricTimescale_def EnsureMetricTime_def
  ensureTimescaleTable_def ensureRealtime_def zeroBoundsError_def rangeOver_def
  IsZero_def zeroTime_def HasSuffix_def zeroInfo_def Before_def After_def Equal_def

lemmas copy_defs = copyAll_def copyMetric_def copyRow_def getTagData_def rangeOver_def
  HasPrefix_def

lemmas flush_defs = write_pass_def flush_def sendLastError_def

section \<open>Bootstrap: properties\<close>






section \<open>The write entry point: properties\<close>

text \<open>
  Claim C7. A call of \<open>Write\<close> made while the writer's context is already cancelled
  returns nil at once and leaves everything as it was; in particular the batch is not
  put on the \<open>input\<close> channel (and no pending error is taken off \<open>lastError\<close>).
\<close>

theorem Write_cancelled:
  assumes "ctxDone pgw"
  shows "Write drained pgw msgs = (None, pgw) \<and>
         input (snd (Write drained pgw msgs)) = input pgw"
  using assms by (simp add: Write_def)

theorem Write_cancelled_witness:
  "ctxDone (newWriter\<lparr>ctxDone := True\<rparr>) \<and>
   Write True (newWriter\<lparr>ctxDone := True\<rparr>)
     [\<lparr>msgDBName = ''t1'', msgMetricName = ''db_stats'', msgCustomTags = None,
       msgData = [[(''numbackends'', AInt64 10)]]\<rparr>] = (None, newWriter\<lparr>ctxDone := True\<rparr>) \<and>
   input (snd (Write True newWriter
     [\<lparr>msgDBName = ''t1'', msgMetricName = ''db_stats'', msgCustomTags = None,
       msgData = [[(''numbackends'', AInt64 10)]]\<rparr>])) =
     [[\<lparr>msgDBName = ''t1'', msgMetricName = ''db_stats'', msgCustomTags = None,
       msgData = [[(''numbackends'', AInt64 10)]]\<rparr>]]"
proof -
  have c: "ctxDone (newWriter\<lparr>ctxDone := True\<rparr>)" by simp
  have live: "input (snd (Write True newWriter
     [\<lparr>msgDBName = ''t1'', msgMetricName = ''db_stats'', msgCustomTags = None,
       msgData = [[(''numbackends'', AInt64 10)]]\<rparr>])) =
     [[\<lparr>msgDBName = ''t1'', msgMetricName = ''db_stats'', msgCustomTags = None,
       msgData = [[(''numbackends'', AInt64 10)]]\<rparr>]]"
    by (simp add: Write_def newWriter_def cacheLimit_def)
  from c Write_cancelled [OF c] live show ?thesis by simp
qed

section \<open>The concrete surroundings, field by field\<close>

lemma calmEnv_fields:
  "now calmEnv n = 1700000000000000000 + int n"
  "sprintv calmEnv v = (case v of AString s \<Rightarrow> s | _ \<Rightarrow> ''?'')"
  "sprintBounds calmEnv pb = ''{}''"
  "jsonMarshal calmEnv m =
     (if m = [] then Inr ''{}''
      else if list_ex (\<lambda>v. v = AFloat64 0x7FF8000000000000) (map snd m)
      then Inl ''json: unsupported value: NaN''
      else Inr ''{...}'')"
  "rangeRank calmEnv place key = 0"
  "ensurePartitionMetricDbnameTime calmEnv h metric dbname ts =
     Inr \<lparr>StartTime = ts - ts mod 1000, EndTime = ts - ts mod 1000 + 1000\<rparr>"
  "ensurePartitionMetricTime calmEnv h metric ts =
     Inr \<lparr>StartTime = ts - ts mod 1000, EndTime = ts - ts mod 1000 + 1000\<rparr>"
  "ensurePartitionMetricTimeEnd calmEnv h metric ts = Inr (ts - ts mod 1000 + 1000)"
  "ensurePartitionTimescale calmEnv h metric = None"
  "copyFrom calmEnv h table t dbname jsonData tagData = None"
  "lastErrorReceiver calmEnv h = False"
  by (simp_all add: calmEnv_def)

section \<open>Collecting the rows: properties\<close>

lemma tryEach_panics:
  "x \<in> set xs \<Longrightarrow> (\<And>s. \<exists>p. body x s = Inl p) \<Longrightarrow> \<exists>p. tryEach body xs s = Inl p"
proof (induction xs arbitrary: s)
  case Nil
  then show ?case by simp
next
  case (Cons y ys)
  show ?case
  proof (cases "body y s")
    case (Inl p)
    then show ?thesis by simp
  next
    case (Inr s')
    show ?thesis
    proof (cases "x = y")
      case True
      with Cons.prems(2) [of s] Inr show ?thesis by simp
    next
      case False
      with Cons.prems have "x \<in> set ys" by simp
      from Cons.IH [OF this Cons.prems(2)] Inr show ?thesis by simp
    qed
  qed
qed

lemma scanField_epoch_panics:
  assumes "v \<noteq> ANil" "v \<noteq> AString []" "\<forall>n. v \<noteq> AInt64 n"
  shows "scanField e (epochColumnName, v) r = Inl (InterfaceConversion v)"
  using assms by (cases v) (simp_all add: scanField_def)

lemma storeRow_epoch_panics:
  assumes "(epochColumnName, v) \<in> set dataRow" "v \<noteq> ANil" "v \<noteq> AString []" "\<forall>n. v \<noteq> AInt64 n"
  shows "\<exists>p. storeRow e schema msg dataRow b = Inl p"
proof -
  have "\<exists>p. tryEach (scanField e) dataRow
          \<lparr>epochNs = 0, tags = customTags e msg, dataFields = []\<rparr> = Inl p"
    by (rule tryEach_panics [OF assms(1)]) (simp add: scanField_epoch_panics [OF assms(2,3,4)])
  then show ?thesis by (auto simp: storeRow_def)
qed

lemma collect_epoch_panics:
  assumes "msg \<in> set msgs" "dataRow \<in> set (msgData msg)"
    "(epochColumnName, v) \<in> set dataRow" "v \<noteq> ANil" "v \<noteq> AString []" "\<forall>n. v \<noteq> AInt64 n"
  shows "\<exists>p. collect e schema msgs = Inl p"
proof -
  have row: "\<And>b. \<exists>p. storeRow e schema msg dataRow b = Inl p"
    by (rule storeRow_epoch_panics [OF assms(3,4,5,6)])
  have "\<And>b. \<exists>p. tryEach (storeRow e schema msg) (msgData msg) b = Inl p"
    by (rule tryEach_panics [OF assms(2)]) (rule row)
  moreover from assms(2) have "length (msgData msg) \<noteq> 0" by auto
  ultimately have "\<And>b. \<exists>p. storeMessage e schema msg b = Inl p"
    by (simp add: storeMessage_def)
  from tryEach_panics [OF assms(1), of "storeMessage e schema", OF this]
  show ?thesis by (simp add: collect_def)
qed

text \<open>
  Claim C10, as the code has it. The claim speaks of every \<open>epoch_ns\<close> value that is
  present, not nil and not an \<open>int64\<close>; the empty string is such a value, and the guard
  \<open>v == nil || v == ""\<close> skips it before the type assertion is reached: the row is then
  stored with the server's time. At the batch below the write pass returns and copies
  the row.
\<close>

theorem write_pass_empty_epoch_returns:
  "(epochColumnName, AString []) \<in> set [(''epoch_ns'', AString [])] \<and>
   AString [] \<noteq> ANil \<and> (\<forall>n. AString [] \<noteq> AInt64 n) \<and>
   hasReturned (write_pass calmEnv newWriter [oneRow [(''epoch_ns'', AString [])]]) \<and>
   trace (finalState (write_pass calmEnv newWriter [oneRow [(''epoch_ns'', AString [])]])) =
     [CallEnsurePartitionMetricDbnameTime ''db_stats'' ''t1'' 1700000000000000000,
      CallCopyFrom ''db_stats'' 1700000000000000000 ''t1'' ''{}'' None]"
proof -
  have rows: "collect calmEnv DbStorageSchemaPostgres [oneRow [(''epoch_ns'', AString [])]] =
    Inr \<lparr>metricsToStorePerMetric = [(''db_stats'', [\<lparr>Time = 1700000000000000000,
            DBName = ''t1'', Metric = ''db_stats'', Data = [], TagData = []\<rparr>])],
          rowsBatched = 1, totalRows = 1, pgPartBounds = [],
          pgPartBoundsDbName = [(''db_stats'', [(''t1'',
            \<lparr>StartTime = 1700000000000000000, EndTime = 1700000000000000000\<rparr>)])]\<rparr>"
    by (simp add: collect_defs calmEnv_fields oneRow_def Let_def)
  show ?thesis
    by (simp add: flush_defs rows ensure_defs copy_defs newWriter_def calmEnv_fields Let_def
        epochColumnName_def)
qed

text \<open>
  Claim C10, amended. For every batch with a row whose \<open>epoch_ns\<close> field is present,
  not nil, not the empty string and not an \<open>int64\<close>, the type assertion \<open>v.(int64)\<close>
  panics: the row-parsing step takes its error branch at that field, and the write pass
  panics (on that row or on an earlier one of the same kind) before anything is ensured,
  copied or counted.
\<close>

theorem write_pass_epoch_panics:
  assumes "msg \<in> set msgs" "dataRow \<in> set (msgData msg)"
    "(epochColumnName, v) \<in> set dataRow" "v \<noteq> ANil" "v \<noteq> AString []" "\<forall>n. v \<noteq> AInt64 n"
  shows "scanField e (epochColumnName, v) r = Inl (InterfaceConversion v) \<and>
         (\<exists>p. write_pass e pgw msgs = Panicked p pgw)"
proof -
  from collect_epoch_panics [OF assms] obtain p where "collect e (MetricSchema pgw) msgs = Inl p"
    by blast
  moreover from assms(1) have "length msgs \<noteq> 0" by auto
  ultimately have "write_pass e pgw msgs = Panicked p pgw"
    by (simp add: write_pass_def)
  with scanField_epoch_panics [OF assms(4,5,6)] show ?thesis by blast
qed

theorem write_pass_epoch_panics_witness:
  "oneRow [(''numbackends'', AInt64 10), (''epoch_ns'', AString ''1700000000'')]
     \<in> set [oneRow [(''numbackends'', AInt64 10), (''epoch_ns'', AString ''1700000000'')]] \<and>
   [(''numbackends'', AInt64 10), (''epoch_ns'', AString ''1700000000'')]
     \<in> set (msgData (oneRow [(''numbackends'', AInt64 10), (''epoch_ns'', AString ''1700000000'')])) \<and>
   (epochColumnName, AString ''1700000000'')
     \<in> set [(''numbackends'', AInt64 10), (''epoch_ns'', AString ''1700000000'')] \<and>
   AString ''1700000000'' \<noteq> ANil \<and> AString ''1700000000'' \<noteq> AString [] \<and>
   (\<forall>n. AString ''1700000000'' \<noteq> AInt64 n) \<and>
   scanField calmEnv (epochColumnName, AString ''1700000000'')
     \<lparr>epochNs = 0, tags = [], dataFields = []\<rparr> = Inl (InterfaceConversion (AString ''1700000000'')) \<and>
   write_pass calmEnv newWriter
     [oneRow [(''numbackends'', AInt64 10), (''epoch_ns'', AString ''1700000000'')]] =
     Panicked (InterfaceConversion (AString ''1700000000'')) newWriter"
proof -
  let ?row = "[(''numbackends'', AInt64 10), (''epoch_ns'', AString ''1700000000'')]"
  have h1: "oneRow ?row \<in> set [oneRow ?row]" by simp
  have h2: "?row \<in> set (msgData (oneRow ?row))" by (simp add: oneRow_def)
  have h3: "(epochColumnName, AString ''1700000000'') \<in> set ?row"
    by (simp add: epochColumnName_def)
  have h4: "AString ''1700000000'' \<noteq> ANil" by simp
  have h5: "AString ''1700000000'' \<noteq> AString []" by simp
  have h6: "\<forall>n. AString ''1700000000'' \<noteq> AInt64 n" by simp
  from write_pass_epoch_panics [OF h1 h2 h3 h4 h5 h6,
      of calmEnv "\<lparr>epochNs = 0, tags = [], dataFields = []\<rparr>" newWriter]
  obtain p where
    field: "scanField calmEnv (epochColumnName, AString ''1700000000'')
       \<lparr>epochNs = 0, tags = [], dataFields = []\<rparr> = Inl (InterfaceConversion (AString ''1700000000''))"
    and pass: "write_pass calmEnv newWriter [oneRow ?row] = Panicked p newWriter"
    by blast
  have "collect calmEnv (MetricSchema newWriter) [oneRow ?row] =
      Inl (InterfaceConversion (AString ''1700000000''))"
    by (simp add: collect_defs calmEnv_fields oneRow_def Let_def)
  then have "write_pass calmEnv newWriter [oneRow ?row] =
      Panicked (InterfaceConversion (AString ''1700000000'')) newWriter"
    by (simp add: write_pass_def)
  with h1 h2 h3 h4 h5 h6 field pass show ?thesis by simp
qed

lemma tryEach_establishes:
  assumes "x \<in> set xs" "tryEach body xs s = Inr s'"
    and est: "\<And>s s1. body x s = Inr s1 \<Longrightarrow> P s1"
    and pres: "\<And>y s s1. P s \<Longrightarrow> body y s = Inr s1 \<Longrightarrow> P s1"
  shows "P s'"
proof -
  have keep: "\<And>s. P s \<Longrightarrow> tryEach body ys s = Inr s' \<Longrightarrow> P s'" for ys s'
  proof (induction ys)
    case Nil
    then show ?case by simp
  next
    case (Cons y ys)
    from Cons.prems(2) obtain s1 where b: "body y s = Inr s1" and r: "tryEach body ys s1 = Inr s'"
      by (auto split: sum.splits)
    from pres [OF Cons.prems(1) b] have "P s1" .
    from Cons.IH [OF this r] show ?case .
  qed
  from assms(1,2) show ?thesis
  proof (induction xs arbitrary: s)
    case Nil
    then show ?case by simp
  next
    case (Cons y ys)
    from Cons.prems(2) obtain s1 where b: "body y s = Inr s1" and r: "tryEach body ys s1 = Inr s'"
      by (auto split: sum.splits)
    show ?case
    proof (cases "x = y")
      case True
      with b est have "P s1" by blast
      from keep [OF this r] show ?thesis .
    next
      case False
      with Cons.prems(1) have "x \<in> set ys" by simp
      from Cons.IH [OF this r] show ?thesis .
    qed
  qed
qed

lemma tryEach_preserves:
  assumes "P s" "tryEach body xs s = Inr s'"
    and pres: "\<And>y s s1. P s \<Longrightarrow> body y s = Inr s1 \<Longrightarrow> P s1"
  shows "P s'"
  using assms(1,2)
proof (induction xs arbitrary: s)
  case Nil
  then show ?case by simp
next
  case (Cons y ys)
  from Cons.prems(2) obtain s1 where b: "body y s = Inr s1" and r: "tryEach body ys s1 = Inr s'"
    by (auto split: sum.splits)
  from pres [OF Cons.prems(1) b] have "P s1" .
  from Cons.IH [OF this r] show ?case .
qed

lemma tryEach_skips:
  "(\<And>x s. x \<in> set xs \<Longrightarrow> body x s = Inr s) \<Longrightarrow> tryEach body xs s = Inr s"
  by (induction xs) simp_all

lemma scanField_null:
  "snd kv = ANil \<or> snd kv = AString [] \<Longrightarrow> scanField e kv r = Inr r"
  by (auto simp: scanField_def)

lemma storeRow_Inr:
  assumes "storeRow e schema msg dataRow b = Inr b'"
  shows "\<exists>r. tryEach (scanField e) dataRow \<lparr>epochNs = 0, tags = customTags e msg, dataFields = []\<rparr> = Inr r \<and>
     stored b' (msgMetricName msg) = stored b (msgMetricName msg) @
       [\<lparr>Time = (if epochNs r = 0 then now e (totalRows b) else Unix0 (epochNs r)),
         DBName = msgDBName msg, Metric = msgMetricName msg, Data = dataFields r, TagData = tags r\<rparr>] \<and>
     (\<forall>k. k \<noteq> msgMetricName msg \<longrightarrow> stored b' k = stored b k) \<and>
     rowsBatched b' = rowsBatched b + 1 \<and> totalRows b' = totalRows b + 1"
  using assms
  by (auto simp: storeRow_def stored_def Let_def update_conv' split: sum.splits DbStorageSchemaType.splits)

lemma storeRow_keeps:
  assumes "storeRow e schema msg dataRow b = Inr b'" "m \<in> set (stored b k)"
  shows "m \<in> set (stored b' k)"
  using storeRow_Inr [OF assms(1)] assms(2) by (cases "k = msgMetricName msg") auto

lemma storeRow_all_null:
  assumes "\<forall>kv\<in>set dataRow. snd kv = ANil \<or> snd kv = AString []"
  shows "\<exists>b'. storeRow e schema msg dataRow b = Inr b' \<and>
     stored b' (msgMetricName msg) = stored b (msgMetricName msg) @
       [\<lparr>Time = now e (totalRows b), DBName = msgDBName msg, Metric = msgMetricName msg,
         Data = [], TagData = customTags e msg\<rparr>] \<and>
     rowsBatched b' = rowsBatched b + 1"
proof -
  have scan: "tryEach (scanField e) dataRow \<lparr>epochNs = 0, tags = customTags e msg, dataFields = []\<rparr>
     = Inr \<lparr>epochNs = 0, tags = customTags e msg, dataFields = []\<rparr>"
    by (rule tryEach_skips) (simp add: scanField_null assms)
  then obtain b' where b': "storeRow e schema msg dataRow b = Inr b'"
    by (simp add: storeRow_def Let_def)
  from storeRow_Inr [OF b'] scan b' show ?thesis by auto
qed

lemma storeMessage_keeps:
  assumes "storeMessage e schema msg b = Inr b'" "m \<in> set (stored b k)"
  shows "m \<in> set (stored b' k)"
proof (cases "length (msgData msg) = 0")
  case True
  with assms show ?thesis by (simp add: storeMessage_def)
next
  case False
  with assms(1) have t: "tryEach (storeRow e schema msg) (msgData msg) b = Inr b'"
    by (simp add: storeMessage_def)
  show ?thesis
    by (rule tryEach_preserves [where P = "\<lambda>b. m \<in> set (stored b k)", OF assms(2) t])
      (rule storeRow_keeps)
qed

lemma collect_all_null_stored:
  assumes "msg \<in> set msgs" "dataRow \<in> set (msgData msg)"
    "\<forall>kv\<in>set dataRow. snd kv = ANil \<or> snd kv = AString []"
    "collect e schema msgs = Inr b"
  shows "\<exists>m\<in>set (stored b (msgMetricName msg)). emptyStored e msg m"
proof -
  let ?P = "\<lambda>b. \<exists>m\<in>set (stored b (msgMetricName msg)). emptyStored e msg m"
  have keepRow: "?P b1" if "?P b" "storeRow e schema msg y b = Inr b1" for y b b1
  proof -
    from that(1) obtain m where m: "m \<in> set (stored b (msgMetricName msg))" "emptyStored e msg m"
      by blast
    from storeRow_keeps [OF that(2) m(1)] m(2) show ?thesis by blast
  qed
  have keepMsg: "?P b1" if "?P b" "storeMessage e schema y b = Inr b1" for y b b1
  proof -
    from that(1) obtain m where m: "m \<in> set (stored b (msgMetricName msg))" "emptyStored e msg m"
      by blast
    from storeMessage_keeps [OF that(2) m(1)] m(2) show ?thesis by blast
  qed
  have estRow: "?P b1" if a: "storeRow e schema msg dataRow b = Inr b1" for b b1
  proof -
    from storeRow_all_null [OF assms(3), of e schema msg b] a
    have st: "stored b1 (msgMetricName msg) = stored b (msgMetricName msg) @
       [\<lparr>Time = now e (totalRows b), DBName = msgDBName msg, Metric = msgMetricName msg,
         Data = [], TagData = customTags e msg\<rparr>]" by auto
    have "emptyStored e msg \<lparr>Time = now e (totalRows b), DBName = msgDBName msg, Metric = msgMetricName msg,
         Data = [], TagData = customTags e msg\<rparr>"
      by (simp add: emptyStored_def)
    with st show ?thesis by (metis in_set_conv_decomp)
  qed
  have estMsg: "?P b1" if a: "storeMessage e schema msg b = Inr b1" for b b1
  proof -
    from assms(2) have "length (msgData msg) \<noteq> 0" by auto
    with a have t: "tryEach (storeRow e schema msg) (msgData msg) b = Inr b1"
      by (simp add: storeMessage_def)
    show ?thesis
      by (rule tryEach_establishes [where P = ?P, OF assms(2) t estRow keepRow])
  qed
  from assms(4) have t: "tryEach (storeMessage e schema) msgs emptyBatch = Inr b"
    by (simp add: collect_def)
  show ?thesis
    by (rule tryEach_establishes [where P = ?P, OF assms(1) t estMsg keepMsg])
qed


lemma rangeOver_set: "set (rangeOver e place m) = set m"
  by (simp add: rangeOver_def)

lemma getTagData_trace: "trace (snd (getTagData e m s)) = trace s"
  by (simp add: getTagData_def split: sum.splits)

lemma copyRow_mono: "set (trace s) \<subseteq> set (trace (copyRow e k m s))"
  by (auto simp: copyRow_def getTagData_def Let_def split: sum.splits option.splits prod.splits if_splits)

lemma copyRow_copied:
  assumes "jsonMarshal e (Data m) = Inr js"
  shows "\<exists>tagData. CallCopyFrom k (Time m) (DBName m) js tagData \<in> set (trace (copyRow e k m s))"
  using assms
  by (auto simp: copyRow_def getTagData_def Let_def split: sum.splits option.splits prod.splits if_splits)

lemma fold_trace_mono:
  assumes "\<And>x s. set (trace s) \<subseteq> set (trace (f x s))"
  shows "set (trace s) \<subseteq> set (trace (fold f xs s))"
proof (induction xs arbitrary: s)
  case Nil
  show ?case by simp
next
  case (Cons x xs)
  from assms [of s x] Cons.IH [of "f x s"] show ?case by auto
qed

lemma fold_trace_reaches:
  assumes "x \<in> set xs"
    and hit: "\<And>s. \<exists>ev\<in>set (trace (f x s)). Q ev"
    and mono: "\<And>y s. set (trace s) \<subseteq> set (trace (f y s))"
  shows "\<exists>ev\<in>set (trace (fold f xs s)). Q ev"
  using assms(1)
proof (induction xs arbitrary: s)
  case Nil
  then show ?case by simp
next
  case (Cons y ys)
  show ?case
  proof (cases "x = y")
    case True
    from hit [of s] obtain ev where ev: "ev \<in> set (trace (f x s))" "Q ev" by blast
    from fold_trace_mono [of f "f x s" ys, OF mono] ev(1) True
    have "ev \<in> set (trace (fold f (y # ys) s))" by auto
    with ev(2) show ?thesis by blast
  next
    case False
    with Cons.prems have "x \<in> set ys" by simp
    from Cons.IH [OF this, of "f y s"] show ?thesis by simp
  qed
qed

lemma copyMetric_mono: "set (trace s) \<subseteq> set (trace (copyMetric e entry s))"
  unfolding copyMetric_def by (rule fold_trace_mono) (rule copyRow_mono)

lemma copyAll_mono: "set (trace s) \<subseteq> set (trace (copyAll e toStore s))"
  unfolding copyAll_def by (rule fold_trace_mono) (rule copyMetric_mono)

lemma copyAll_copied:
  assumes "map_of toStore k = Some ms" "m \<in> set ms" "jsonMarshal e (Data m) = Inr js"
  shows "\<exists>ev\<in>set (trace (copyAll e toStore s)).
           \<exists>tagData. ev = CallCopyFrom k (Time m) (DBName m) js tagData"
proof -
  let ?Q = "\<lambda>ev. \<exists>tagData. ev = CallCopyFrom k (Time m) (DBName m) js tagData"
  from assms(1) have "(k, ms) \<in> set toStore" by (rule map_of_SomeD)
  then have mem: "(k, ms) \<in> set (rangeOver e ''metricsToStorePerMetric'' toStore)"
    by (simp add: rangeOver_set)
  have row: "\<exists>ev\<in>set (trace (copyRow e k m s)). ?Q ev" for s
    using copyRow_copied [OF assms(3), of k s] by blast
  have metric: "\<exists>ev\<in>set (trace (copyMetric e (k, ms) s)). ?Q ev" for s
    unfolding copyMetric_def fst_conv snd_conv
    by (rule fold_trace_reaches [where f = "copyRow e k" and Q = ?Q, OF assms(2) row copyRow_mono])
  show ?thesis
    unfolding copyAll_def
    by (rule fold_trace_reaches [where f = "copyMetric e" and Q = ?Q, OF mem metric copyMetric_mono])
qed

lemma flush_Returned_copies:
  assumes "flush e b pgw = Returned s"
  shows "\<exists>s0. set (trace (copyAll e (metricsToStorePerMetric b) s0)) \<subseteq> set (trace s)"
proof (cases "ensurePartitions e b pgw")
  case (Pair err s1)
  show ?thesis
  proof (cases err)
    case None
    with Pair assms show ?thesis by (auto simp: flush_def Let_def)
  next
    case (Some er)
    with Pair assms show ?thesis
      by (auto simp: flush_def Let_def sendLastError_def split: sum.splits if_splits)
  qed
qed

text \<open>
  Claim C3, as the code has it. A row whose fields are all null or empty is not elided:
  the write pass below collects an entry for it, with no payload field and the server's
  time, and copies it with the payload \<open>{}\<close>.
\<close>

theorem write_pass_null_row_copied:
  "snd (''numbackends'', ANil) = ANil \<and> snd (''tag_host'', AString []) = AString [] \<and>
   collect calmEnv DbStorageSchemaPostgres
     [oneRow [(''numbackends'', ANil), (''tag_host'', AString [])]] =
     Inr \<lparr>metricsToStorePerMetric = [(''db_stats'', [\<lparr>Time = 1700000000000000000,
            DBName = ''t1'', Metric = ''db_stats'', Data = [], TagData = []\<rparr>])],
          rowsBatched = 1, totalRows = 1, pgPartBounds = [],
          pgPartBoundsDbName = [(''db_stats'', [(''t1'',
            \<lparr>StartTime = 1700000000000000000, EndTime = 1700000000000000000\<rparr>)])]\<rparr> \<and>
   hasReturned (write_pass calmEnv newWriter
     [oneRow [(''numbackends'', ANil), (''tag_host'', AString [])]]) \<and>
   trace (finalState (write_pass calmEnv newWriter
     [oneRow [(''numbackends'', ANil), (''tag_host'', AString [])]])) =
     [CallEnsurePartitionMetricDbnameTime ''db_stats'' ''t1'' 1700000000000000000,
      CallCopyFrom ''db_stats'' 1700000000000000000 ''t1'' ''{}'' None]"
proof -
  have rows: "collect calmEnv DbStorageSchemaPostgres
     [oneRow [(''numbackends'', ANil), (''tag_host'', AString [])]] =
     Inr \<lparr>metricsToStorePerMetric = [(''db_stats'', [\<lparr>Time = 1700000000000000000,
            DBName = ''t1'', Metric = ''db_stats'', Data = [], TagData = []\<rparr>])],
          rowsBatched = 1, totalRows = 1, pgPartBounds = [],
          pgPartBoundsDbName = [(''db_stats'', [(''t1'',
            \<lparr>StartTime = 1700000000000000000, EndTime = 1700000000000000000\<rparr>)])]\<rparr>"
    by (simp add: collect_defs calmEnv_fields oneRow_def Let_def)
  have pass: "hasReturned (write_pass calmEnv newWriter
     [oneRow [(''numbackends'', ANil), (''tag_host'', AString [])]]) \<and>
   trace (finalState (write_pass calmEnv newWriter
     [oneRow [(''numbackends'', ANil), (''tag_host'', AString [])]])) =
     [CallEnsurePartitionMetricDbnameTime ''db_stats'' ''t1'' 1700000000000000000,
      CallCopyFrom ''db_stats'' 1700000000000000000 ''t1'' ''{}'' None]"
    by (simp add: flush_defs rows ensure_defs copy_defs newWriter_def calmEnv_fields Let_def)
  from rows pass show ?thesis by simp
qed

text \<open>
  Claim C3, amended. For every row of an accepted batch whose fields are all null or
  empty-string valued, the fields are dropped but the row is stored: the row step appends
  one \<open>MeasurementMessagePostgres\<close> entry for it, with an empty payload, the custom tags
  of its message as tags and the server's time, and counts it as batched; the entry is
  among those collected for its metric whenever the pass does not panic, and a write pass
  that returns has issued a copy call for it, with the marshalled empty payload as
  \<open>data\<close>. (Only a message without rows is skipped.)
\<close>

theorem write_pass_null_row_stored:
  assumes "msg \<in> set msgs" "dataRow \<in> set (msgData msg)"
    "\<forall>kv\<in>set dataRow. snd kv = ANil \<or> snd kv = AString []"
  shows "(\<exists>b'. storeRow e schema msg dataRow b = Inr b' \<and>
            stored b' (msgMetricName msg) = stored b (msgMetricName msg) @
              [\<lparr>Time = now e (totalRows b), DBName = msgDBName msg, Metric = msgMetricName msg,
                Data = [], TagData = customTags e msg\<rparr>] \<and>
            rowsBatched b' = rowsBatched b + 1) \<and>
         (\<forall>bt. collect e (MetricSchema pgw) msgs = Inr bt \<longrightarrow>
            (\<exists>m\<in>set (stored bt (msgMetricName msg)). emptyStored e msg m \<and>
               (\<forall>js s. jsonMarshal e [] = Inr js \<longrightarrow> write_pass e pgw msgs = Returned s \<longrightarrow>
                  (\<exists>tagData. CallCopyFrom (msgMetricName msg) (Time m) (msgDBName msg) js tagData
                     \<in> set (trace s)))))"
proof (intro conjI allI impI)
  show "\<exists>b'. storeRow e schema msg dataRow b = Inr b' \<and>
            stored b' (msgMetricName msg) = stored b (msgMetricName msg) @
              [\<lparr>Time = now e (totalRows b), DBName = msgDBName msg, Metric = msgMetricName msg,
                Data = [], TagData = customTags e msg\<rparr>] \<and>
            rowsBatched b' = rowsBatched b + 1"
    by (rule storeRow_all_null [OF assms(3)])
next
  fix bt
  assume bt: "collect e (MetricSchema pgw) msgs = Inr bt"
  from collect_all_null_stored [OF assms bt] obtain m where
    m: "m \<in> set (stored bt (msgMetricName msg))" "emptyStored e msg m"
    by blast
  have "\<exists>tagData. CallCopyFrom (msgMetricName msg) (Time m) (msgDBName msg) js tagData
          \<in> set (trace s)"
    if js: "jsonMarshal e [] = Inr js" and ret: "write_pass e pgw msgs = Returned s" for js s
  proof -
    from assms(1) have "length msgs \<noteq> 0" by auto
    with ret bt have fl: "flush e bt pgw = Returned s"
      by (simp add: write_pass_def)
    from flush_Returned_copies [OF fl] obtain s0 where
      sub: "set (trace (copyAll e (metricsToStorePerMetric bt) s0)) \<subseteq> set (trace s)"
      by blast
    from m(1) have "\<exists>ms. map_of (metricsToStorePerMetric bt) (msgMetricName msg) = Some ms \<and>
        m \<in> set ms"
      by (cases "map_of (metricsToStorePerMetric bt) (msgMetricName msg)")
        (simp_all add: stored_def)
    then obtain ms where
      ms: "map_of (metricsToStorePerMetric bt) (msgMetricName msg) = Some ms" "m \<in> set ms"
      by blast
    from m(2) js have mj: "jsonMarshal e (Data m) = Inr js" and db: "DBName m = msgDBName msg"
      by (simp_all add: emptyStored_def)
    from copyAll_copied [OF ms mj, of s0] db sub show ?thesis by auto
  qed
  with m show "\<exists>m\<in>set (stored bt (msgMetricName msg)). emptyStored e msg m \<and>
       (\<forall>js s. jsonMarshal e [] = Inr js \<longrightarrow> write_pass e pgw msgs = Returned s \<longrightarrow>
          (\<exists>tagData. CallCopyFrom (msgMetricName msg) (Time m) (msgDBName msg) js tagData
             \<in> set (trace s)))"
    by blast
qed

theorem write_pass_null_row_stored_witness:
  "oneRow [(''numbackends'', ANil), (''tag_host'', AString [])]
     \<in> set [oneRow [(''numbackends'', ANil), (''tag_host'', AString [])]] \<and>
   [(''numbackends'', ANil), (''tag_host'', AString [])]
     \<in> set (msgData (oneRow [(''numbackends'', ANil), (''tag_host'', AString [])])) \<and>
   snd (''numbackends'', ANil) = ANil \<and> snd (''tag_host'', AString []) = AString [] \<and>
   (\<exists>b'. storeRow calmEnv DbStorageSchemaPostgres
            (oneRow [(''numbackends'', ANil), (''tag_host'', AString [])])
            [(''numbackends'', ANil), (''tag_host'', AString [])] emptyBatch = Inr b' \<and>
          stored b' ''db_stats'' =
            [\<lparr>Time = 1700000000000000000, DBName = ''t1'', Metric = ''db_stats'',
              Data = [], TagData = []\<rparr>] \<and>
          rowsBatched b' = 1)"
proof -
  let ?row = "[(''numbackends'', ANil), (''tag_host'', AString [])]"
  have h1: "oneRow ?row \<in> set [oneRow ?row]" by simp
  have h2: "?row \<in> set (msgData (oneRow ?row))" by (simp add: oneRow_def)
  have h3: "\<forall>kv\<in>set ?row. snd kv = ANil \<or> snd kv = AString []" by simp
  from write_pass_null_row_stored [OF h1 h2 h3, of calmEnv DbStorageSchemaPostgres emptyBatch newWriter]
  have "\<exists>b'. storeRow calmEnv DbStorageSchemaPostgres (oneRow ?row) ?row emptyBatch = Inr b' \<and>
          stored b' (msgMetricName (oneRow ?row)) = stored emptyBatch (msgMetricName (oneRow ?row)) @
            [\<lparr>Time = now calmEnv (totalRows emptyBatch), DBName = msgDBName (oneRow ?row),
              Metric = msgMetricName (oneRow ?row), Data = [],
              TagData = customTags calmEnv (oneRow ?row)\<rparr>] \<and>
          rowsBatched b' = rowsBatched emptyBatch + 1"
    by blast
  then have "\<exists>b'. storeRow calmEnv DbStorageSchemaPostgres (oneRow ?row) ?row emptyBatch = Inr b' \<and>
          stored b' ''db_stats'' =
            [\<lparr>Time = 1700000000000000000, DBName = ''t1'', Metric = ''db_stats'',
              Data = [], TagData = []\<rparr>] \<and>
          rowsBatched b' = 1"
    by (simp add: oneRow_def stored_def emptyBatch_def customTags_def calmEnv_fields)
  with h1 h2 show ?thesis by simp
qed

section \<open>The copy engine: properties\<close>





















section \<open>The partition manager: properties\<close>









section \<open>Zero bounds\<close>


lemma addsNone_one: "trace s' = trace s @ [ev] \<Longrightarrow> \<not> Q ev \<Longrightarrow> addsNone Q s s'"
  by (simp add: addsNone_def)



























section \<open>The flush: an error of the partition-ensure step\<close>

lemma refusingEnv_fields:
  "now refusingEnv = now calmEnv"
  "sprintv refusingEnv = sprintv calmEnv"
  "jsonMarshal refusingEnv = jsonMarshal calmEnv"
  "rangeRank refusingEnv = rangeRank calmEnv"
  "ensurePartitionMetricDbnameTime refusingEnv h metric dbname ts = Inl ''connection refused''"
  "copyFrom refusingEnv = copyFrom calmEnv"
  "lastErrorReceiver refusingEnv = lastErrorReceiver calmEnv"
  by (simp_all add: refusingEnv_def)

lemma heardEnv_fields:
  "now heardEnv = now calmEnv"
  "sprintv heardEnv = sprintv calmEnv"
  "jsonMarshal heardEnv = jsonMarshal calmEnv"
  "rangeRank heardEnv = rangeRank calmEnv"
  "ensurePartitionMetricDbnameTime heardEnv h metric dbname ts = Inl ''connection refused''"
  "copyFrom heardEnv = copyFrom calmEnv"
  "lastErrorReceiver heardEnv h = True"
  by (simp_all add: heardEnv_def refusingEnv_def)

lemma collect_tenBackends:
  "collect refusingEnv DbStorageSchemaPostgres [oneRow [(''numbackends'', AInt64 10)]] =
     Inr tenBackends"
  by (simp add: collect_defs refusingEnv_fields calmEnv_fields oneRow_def Let_def tenBackends_def)

lemma clear_force:
  "(if forceRecreatePGMetricPartitions s
    then s\<lparr>forceRecreatePGMetricPartitions := False\<rparr> else s) =
   s\<lparr>forceRecreatePGMetricPartitions := False\<rparr>"
  by (cases "forceRecreatePGMetricPartitions s") simp_all

text \<open>
  Claim C2, as the code has it. The send \<open>pgw.lastError <- err\<close> is a plain send on an
  unbuffered channel. In the write pass below the store refuses the partition procedure
  and no reader is on \<open>lastError\<close>: the failure is counted, and then the batcher is
  suspended in the send, holding the error, and has copied nothing. It does not go on,
  and the error is not lost.
\<close>

theorem write_pass_ensure_error_suspends:
  "blockedOn (write_pass refusingEnv newWriter [oneRow [(''numbackends'', AInt64 10)]]) =
     Some ''connection refused'' \<and>
   hasReturned (write_pass refusingEnv newWriter [oneRow [(''numbackends'', AInt64 10)]]) = False \<and>
   lastErrorSender (finalState (write_pass refusingEnv newWriter
     [oneRow [(''numbackends'', AInt64 10)]])) = Some ''connection refused'' \<and>
   datastoreWriteFailuresCounter (finalState (write_pass refusingEnv newWriter
     [oneRow [(''numbackends'', AInt64 10)]])) = 1 \<and>
   trace (finalState (write_pass refusingEnv newWriter [oneRow [(''numbackends'', AInt64 10)]])) =
     [CallEnsurePartitionMetricDbnameTime ''db_stats'' ''t1'' 1700000000000000000]"
  by (simp add: flush_defs collect_tenBackends tenBackends_def ensure_defs copy_defs newWriter_def
      refusingEnv_fields calmEnv_fields Let_def)

text \<open>
  Claim C2, amended. For every flush in which the partition-ensure step returns an
  error, \<open>datastore_write_failures\<close> is incremented and the error is sent on the
  last-error channel with a blocking send: when no reader takes it, the batcher stays
  suspended in the send with the error pending, before any copy; when a reader takes it,
  the copies are made and the same error is sent once more, again with a blocking send.
  The write pass returns only if a reader took the error.
\<close>

theorem flush_ensure_error_blocking_send:
  assumes "ensurePartitions e b pgw = (Some err, s1)"
  shows "(lastErrorReceiver e (trace s1) = False \<longrightarrow>
            flush e b pgw = Blocked err
              (s1\<lparr>forceRecreatePGMetricPartitions := False,
                  datastoreWriteFailuresCounter := datastoreWriteFailuresCounter s1 + 1,
                  lastErrorSender := Some err\<rparr>)) \<and>
         (lastErrorReceiver e (trace s1) \<longrightarrow>
            flush e b pgw =
              (let s3 = copyAll e (metricsToStorePerMetric b)
                    (s1\<lparr>forceRecreatePGMetricPartitions := False,
                        datastoreWriteFailuresCounter := datastoreWriteFailuresCounter s1 + 1,
                        trace := trace s1 @ [SentLastError err]\<rparr>)
               in if lastErrorReceiver e (trace s3)
                  then Returned (s3\<lparr>trace := trace s3 @ [SentLastError err]\<rparr>)
                  else Blocked err (s3\<lparr>lastErrorSender := Some err\<rparr>))) \<and>
         (hasReturned (flush e b pgw) \<longrightarrow> lastErrorReceiver e (trace s1))"
  using assms
  by (simp add: flush_def sendLastError_def clear_force Let_def)

theorem flush_ensure_error_blocking_send_witness:
  "ensurePartitions refusingEnv tenBackends newWriter =
     (Some ''connection refused'', snd (ensurePartitions refusingEnv tenBackends newWriter)) \<and>
   lastErrorReceiver refusingEnv (trace (snd (ensurePartitions refusingEnv tenBackends newWriter))) = False \<and>
   flush refusingEnv tenBackends newWriter =
     Blocked ''connection refused''
       ((snd (ensurePartitions refusingEnv tenBackends newWriter))
          \<lparr>forceRecreatePGMetricPartitions := False,
           datastoreWriteFailuresCounter :=
             datastoreWriteFailuresCounter (snd (ensurePartitions refusingEnv tenBackends newWriter)) + 1,
           lastErrorSender := Some ''connection refused''\<rparr>) \<and>
   datastoreWriteFailuresCounter (snd (ensurePartitions refusingEnv tenBackends newWriter)) + 1 = 1 \<and>
   ensurePartitions heardEnv tenBackends newWriter =
     (Some ''connection refused'', snd (ensurePartitions heardEnv tenBackends newWriter)) \<and>
   lastErrorReceiver heardEnv (trace (snd (ensurePartitions heardEnv tenBackends newWriter))) \<and>
   hasReturned (flush heardEnv tenBackends newWriter) \<and>
   trace (finalState (flush heardEnv tenBackends newWriter)) =
     [CallEnsurePartitionMetricDbnameTime ''db_stats'' ''t1'' 1700000000000000000,
      SentLastError ''connection refused'',
      CallCopyFrom ''db_stats'' 1700000000000000000 ''t1'' ''{...}'' None,
      SentLastError ''connection refused''] \<and>
   datastoreWriteFailuresCounter (finalState (flush heardEnv tenBackends newWriter)) = 1"
proof -
  have f1: "fst (ensurePartitions refusingEnv tenBackends newWriter) = Some ''connection refused''"
    by (simp add: ensure_defs tenBackends_def newWriter_def refusingEnv_fields calmEnv_fields Let_def)
  then have e1: "ensurePartitions refusingEnv tenBackends newWriter =
      (Some ''connection refused'', snd (ensurePartitions refusingEnv tenBackends newWriter))"
    by (metis prod.collapse)
  have r1: "lastErrorReceiver refusingEnv
      (trace (snd (ensurePartitions refusingEnv tenBackends newWriter))) = False"
    by (simp add: refusingEnv_fields calmEnv_fields)
  have c1: "datastoreWriteFailuresCounter
      (snd (ensurePartitions refusingEnv tenBackends newWriter)) + 1 = 1"
    by (simp add: ensure_defs tenBackends_def newWriter_def refusingEnv_fields calmEnv_fields Let_def)
  from flush_ensure_error_blocking_send [OF e1] r1
  have blocked: "flush refusingEnv tenBackends newWriter =
     Blocked ''connection refused''
       ((snd (ensurePartitions refusingEnv tenBackends newWriter))
          \<lparr>forceRecreatePGMetricPartitions := False,
           datastoreWriteFailuresCounter :=
             datastoreWriteFailuresCounter (snd (ensurePartitions refusingEnv tenBackends newWriter)) + 1,
           lastErrorSender := Some ''connection refused''\<rparr>)"
    by blast
  have f2: "fst (ensurePartitions heardEnv tenBackends newWriter) = Some ''connection refused''"
    by (simp add: ensure_defs tenBackends_def newWriter_def heardEnv_fields calmEnv_fields Let_def)
  then have e2: "ensurePartitions heardEnv tenBackends newWriter =
      (Some ''connection refused'', snd (ensurePartitions heardEnv tenBackends newWriter))"
    by (metis prod.collapse)
  have r2: "lastErrorReceiver heardEnv
      (trace (snd (ensurePartitions heardEnv tenBackends newWriter)))"
    by (simp add: heardEnv_fields)
  have heard: "hasReturned (flush heardEnv tenBackends newWriter) \<and>
    trace (finalState (flush heardEnv tenBackends newWriter)) =
     [CallEnsurePartitionMetricDbnameTime ''db_stats'' ''t1'' 1700000000000000000,
      SentLastError ''connection refused'',
      CallCopyFrom ''db_stats'' 1700000000000000000 ''t1'' ''{...}'' None,
      SentLastError ''connection refused''] \<and>
    datastoreWriteFailuresCounter (finalState (flush heardEnv tenBackends newWriter)) = 1"
    by (simp add: flush_defs tenBackends_def ensure_defs copy_defs newWriter_def
        heardEnv_fields calmEnv_fields Let_def)
  from e1 r1 blocked c1 e2 r2 heard show ?thesis by blast
qed

section \<open>The storage mode\<close>

lemma forEach_keeps:
  assumes "\<And>x s. f (snd (body x s)) = f s"
  shows "f (snd (forEach body xs s)) = f s"
proof (induction xs arbitrary: s)
  case Nil
  show ?case by simp
next
  case (Cons x xs)
  obtain r s1 where b: "body x s = (r, s1)" by (cases "body x s")
  from assms [of x s] b have one: "f s1 = f s" by simp
  show ?case
  proof (cases r)
    case (Some err)
    with b one show ?thesis by simp
  next
    case None
    with b one Cons.IH [of s1] show ?thesis by simp
  qed
qed

lemma fold_keeps:
  assumes "\<And>x s. f (g x s) = f s"
  shows "f (fold g xs s) = f s"
  by (induction xs arbitrary: s) (simp_all add: assms)

lemma ensureDbname_schema: "MetricSchema (snd (ensureDbname e force metric x s)) = MetricSchema s"
  by (auto simp: ensureDbname_def ensureDbnameStart_def ensureDbnameEnd_def queryDbnameTime_def
      setCachedDbname_def Let_def split: sum.splits if_splits)

lemma ensureMetricDbnames_schema:
  "MetricSchema (snd (ensureMetricDbnames e force x s)) = MetricSchema s"
proof -
  have "MetricSchema (snd (forEach (ensureDbname e force m) xs t)) = MetricSchema t" for m xs t
    by (rule forEach_keeps) (rule ensureDbname_schema)
  then show ?thesis by (simp add: ensureMetricDbnames_def Let_def)
qed

lemma EnsureMetricDbnameTime_schema:
  "MetricSchema (snd (EnsureMetricDbnameTime e bounds force s)) = MetricSchema s"
  unfolding EnsureMetricDbnameTime_def
  by (rule forEach_keeps) (rule ensureMetricDbnames_schema)

lemma ensureTimescaleTable_schema:
  "MetricSchema (snd (ensureTimescaleTable e x s)) = MetricSchema s"
  by (auto simp: ensureTimescaleTable_def Let_def split: option.splits)

lemma ensureRealtime_schema:
  "MetricSchema (snd (ensureRealtime e force x s)) = MetricSchema s"
  by (auto simp: ensureRealtime_def Let_def split: sum.splits if_splits)

lemma EnsureMetricTimescale_schema:
  "MetricSchema (snd (EnsureMetricTimescale e bounds force s)) = MetricSchema s"
proof -
  obtain r s1 where t: "forEach (ensureTimescaleTable e)
      (rangeOver e ''EnsureMetricTimescale'' bounds) s = (r, s1)"
    by (cases "forEach (ensureTimescaleTable e) (rangeOver e ''EnsureMetricTimescale'' bounds) s")
  have "MetricSchema (snd (forEach (ensureTimescaleTable e)
      (rangeOver e ''EnsureMetricTimescale'' bounds) s)) = MetricSchema s"
    by (rule forEach_keeps) (rule ensureTimescaleTable_schema)
  with t have one: "MetricSchema s1 = MetricSchema s" by simp
  have two: "MetricSchema (snd (EnsureMetricTime e bounds force s1)) = MetricSchema s1"
    unfolding EnsureMetricTime_def by (rule forEach_keeps) (rule ensureRealtime_schema)
  from t one two show ?thesis
    by (cases r) (simp_all add: EnsureMetricTimescale_def)
qed

lemma ensurePartitions_schema:
  "MetricSchema (snd (ensurePartitions e b s)) = MetricSchema s"
  by (cases "MetricSchema s")
    (simp_all add: ensurePartitions_def EnsureMetricDbnameTime_schema EnsureMetricTimescale_schema)

lemma copyRow_schema: "MetricSchema (copyRow e k m s) = MetricSchema s"
  by (auto simp: copyRow_def getTagData_def Let_def split: sum.splits option.splits)

lemma copyAll_schema: "MetricSchema (copyAll e toStore s) = MetricSchema s"
proof -
  have "MetricSchema (copyMetric e x t) = MetricSchema t" for x t
    unfolding copyMetric_def by (rule fold_keeps) (rule copyRow_schema)
  then show ?thesis unfolding copyAll_def by (rule fold_keeps)
qed

lemma flush_schema: "MetricSchema (finalState (flush e b s)) = MetricSchema s"
proof -
  obtain err s1 where ens: "ensurePartitions e b s = (err, s1)"
    by (cases "ensurePartitions e b s")
  with ensurePartitions_schema [of e b s] have "MetricSchema s1 = MetricSchema s" by simp
  with ens show ?thesis
    by (cases err)
      (simp_all add: flush_def sendLastError_def clear_force Let_def copyAll_schema)
qed

lemma write_pass_schema: "MetricSchema (finalState (write_pass e s msgs)) = MetricSchema s"
  by (simp add: write_pass_def flush_schema split: sum.splits)

lemma Write_schema: "MetricSchema (snd (Write drained s msgs)) = MetricSchema s"
  by (simp add: Write_def Let_def split: option.splits)

text \<open>
  Claim C4, as the code has it. When the settings table has no row, the probe returns
  the error of the scan, and \<open>NewPostgresWriter\<close> returns it in turn: the writer is not
  constructed.
\<close>

theorem NewPostgresWriter_no_row_fails:
  "schemaTypeRow noRowStore = Inl ''no rows in result set'' \<and>
   newError (NewPostgresWriter noRowStore) = Some ''no rows in result set'' \<and>
   poolClosed (NewPostgresWriter noRowStore) = True \<and>
   tasksStarted (NewPostgresWriter noRowStore) = False"
  by (simp add: NewPostgresWriter_def ReadMetricSchemaType_def noRowStore_def Let_def)

text \<open>
  Claim C4, amended. For every invocation of the schema-type probe in which the
  settings-table query fails or returns no row, the probe sets the plain (Postgres)
  storage mode and returns the error; writer construction then fails with that error
  (after a successful connection the pool is closed again), and no background task is
  started. A storage mode once set is changed neither by \<open>Write\<close> nor by the batcher's
  write pass.
\<close>

theorem ReadMetricSchemaType_error_fails_construction:
  assumes "schemaTypeRow st = Inl err"
  shows "ReadMetricSchemaType (schemaTypeRow st) pgw =
           (Some err, pgw\<lparr>MetricSchema := DbStorageSchemaPostgres\<rparr>) \<and>
         (connectError st = None \<longrightarrow>
            NewPostgresWriter st =
              \<lparr>newError = Some err, writer = newWriter, poolClosed = True, tasksStarted = False\<rparr>) \<and>
         newError (NewPostgresWriter st) \<noteq> None \<and>
         tasksStarted (NewPostgresWriter st) = False \<and>
         MetricSchema (snd (Write drained pgw msgs)) = MetricSchema pgw \<and>
         MetricSchema (finalState (write_pass e pgw msgs)) = MetricSchema pgw"
proof -
  from assms have probe: "ReadMetricSchemaType (schemaTypeRow st) s =
      (Some err, s\<lparr>MetricSchema := DbStorageSchemaPostgres\<rparr>)" for s
    by (simp add: ReadMetricSchemaType_def Let_def)
  have plain: "newWriter\<lparr>MetricSchema := DbStorageSchemaPostgres\<rparr> = newWriter"
    by (simp add: newWriter_def)
  have built: "connectError st = None \<longrightarrow>
      NewPostgresWriter st =
        \<lparr>newError = Some err, writer = newWriter, poolClosed = True, tasksStarted = False\<rparr>"
    by (simp add: NewPostgresWriter_def probe plain Let_def)
  have failed: "newError (NewPostgresWriter st) \<noteq> None \<and> tasksStarted (NewPostgresWriter st) = False"
    by (cases "connectError st") (simp_all add: NewPostgresWriter_def probe plain Let_def)
  from probe [of pgw] built failed Write_schema [of drained pgw msgs] write_pass_schema [of e pgw msgs]
  show ?thesis by simp
qed

theorem ReadMetricSchemaType_error_fails_construction_witness:
  "schemaTypeRow noRowStore = Inl ''no rows in result set'' \<and>
   connectError noRowStore = None \<and>
   ReadMetricSchemaType (schemaTypeRow noRowStore) (newWriter\<lparr>MetricSchema := DbStorageSchemaTimescale\<rparr>) =
     (Some ''no rows in result set'',
      newWriter\<lparr>MetricSchema := DbStorageSchemaTimescale, MetricSchema := DbStorageSchemaPostgres\<rparr>) \<and>
   NewPostgresWriter noRowStore =
     \<lparr>newError = Some ''no rows in result set'', writer = newWriter, poolClosed = True,
      tasksStarted = False\<rparr> \<and>
   MetricSchema (finalState (write_pass calmEnv (newWriter\<lparr>MetricSchema := DbStorageSchemaTimescale\<rparr>)
     [oneRow [(''numbackends'', AInt64 10)]])) = DbStorageSchemaTimescale"
proof -
  have h: "schemaTypeRow noRowStore = Inl ''no rows in result set''"
    by (simp add: noRowStore_def)
  have c: "connectError noRowStore = None"
    by (simp add: noRowStore_def)
  from ReadMetricSchemaType_error_fails_construction [OF h,
      of "newWriter\<lparr>MetricSchema := DbStorageSchemaTimescale\<rparr>" True
         "[oneRow [(''numbackends'', AInt64 10)]]" calmEnv] h c
  show ?thesis by simp
qed

section \<open>The force flag\<close>

lemma lostPartitionEnv_fields:
  "now lostPartitionEnv = now calmEnv"
  "sprintv lostPartitionEnv = sprintv calmEnv"
  "jsonMarshal lostPartitionEnv = jsonMarshal calmEnv"
  "rangeRank lostPartitionEnv = rangeRank calmEnv"
  "ensurePartitionMetricDbnameTime lostPartitionEnv = ensurePartitionMetricDbnameTime calmEnv"
  "copyFrom lostPartitionEnv h table t dbname jsonData tagData =
     (if filter isCopy h = [] then Some ''ERROR: no partition of relation wal found for row''
      else Some ''unexpected EOF'')"
  "lastErrorReceiver lostPartitionEnv = lastErrorReceiver calmEnv"
  by (simp_all add: lostPartitionEnv_def)

lemma collect_walRows:
  "collect lostPartitionEnv DbStorageSchemaPostgres walRows =
     Inr \<lparr>metricsToStorePerMetric = [(''wal'',
            [\<lparr>Time = 1700000000000000100, DBName = ''t1'', Metric = ''wal'',
               Data = [(''xlog_location_b'', AInt64 1)], TagData = []\<rparr>,
             \<lparr>Time = 1700000000000000200, DBName = ''t1'', Metric = ''wal'',
               Data = [(''xlog_location_b'', AInt64 2)], TagData = []\<rparr>])],
          rowsBatched = 2, totalRows = 2, pgPartBounds = [],
          pgPartBoundsDbName = [(''wal'', [(''t1'',
            \<lparr>StartTime = 1700000000000000100, EndTime = 1700000000000000200\<rparr>)])]\<rparr>"
  by (simp add: collect_defs lostPartitionEnv_fields calmEnv_fields walRows_def Let_def)

text \<open>
  Claim C1 at a flush of two rows of one metric, the first copy failing with a message
  that contains \<open>no partition\<close>, the second with another message. Each failing copy
  assigns the flag anew, so the second failure takes it back: at the end of the flush
  the flag is false, where the claim has it true whatever the other copies do.
\<close>

theorem write_pass_force_flag_overwritten:
  "Contains ''ERROR: no partition of relation wal found for row'' ''no partition'' \<and>
   hasReturned (write_pass lostPartitionEnv newWriter walRows) \<and>
   trace (finalState (write_pass lostPartitionEnv newWriter walRows)) =
     [CallEnsurePartitionMetricDbnameTime ''wal'' ''t1'' 1700000000000000100,
      CallCopyFrom ''wal'' 1700000000000000100 ''t1'' ''{...}'' None,
      CallCopyFrom ''wal'' 1700000000000000200 ''t1'' ''{...}'' None] \<and>
   copyFrom lostPartitionEnv
     [CallEnsurePartitionMetricDbnameTime ''wal'' ''t1'' 1700000000000000100]
     ''wal'' 1700000000000000100 ''t1'' ''{...}'' None =
     Some ''ERROR: no partition of relation wal found for row'' \<and>
   datastoreWriteFailuresCounter (finalState (write_pass lostPartitionEnv newWriter walRows)) = 2 \<and>
   forceRecreatePGMetricPartitions (finalState (write_pass lostPartitionEnv newWriter walRows)) =
     False"
proof -
  have some: "walRows \<noteq> []" by (simp add: walRows_def)
  show ?thesis
    by (simp add: flush_defs collect_walRows some ensure_defs copy_defs newWriter_def
        lostPartitionEnv_fields calmEnv_fields Let_def)
qed

end
